theory Spec2Isabelle
  imports Complex_Main
begin

section \<open>The quiz page script: \<^verbatim>\<open>static/js/script.js\<close>\<close>

text \<open>
  The script has three functions: \<^verbatim>\<open>generateQuiz\<close> reads four form fields, validates
  them, posts them as JSON and hands the answer to \<^verbatim>\<open>displayQuiz\<close>; every failure goes
  to \<^verbatim>\<open>displayError\<close>. The embedding follows the JavaScript semantics of the operations the
  script uses: \<^verbatim>\<open>String.prototype.split\<close> and \<^verbatim>\<open>trim\<close>, truthiness, the conversion of
  a string to a number in a comparison, property reads on parsed JSON, the conversion of a
  value to a string in a template, and \<^verbatim>\<open>JSON.stringify\<close>.

  A JavaScript string is the list of its code units; the embedding covers the code units
  below 256, as \<^typ>\<open>char\<close>.
\<close>

subsection \<open>Strings\<close>

text \<open>
  \<^verbatim>\<open>s.split(',')\<close>: the segments between the separators. The empty string has one
  segment, the empty one.
\<close>

fun js_split :: "string \<Rightarrow> char \<Rightarrow> string list" where
  "js_split [] sep = [[]]"
| "js_split (c # cs) sep =
     (if c = sep then [] # js_split cs sep
      else (c # hd (js_split cs sep)) # tl (js_split cs sep))"

text \<open>
  White space and line terminators below 256: TAB, LF, VT, FF, CR, SP and NBSP. Both
  \<^verbatim>\<open>trim\<close> and the string-to-number conversion strip them at the two ends.
\<close>

definition is_space :: "char \<Rightarrow> bool" where
  "is_space c \<longleftrightarrow> c \<in> {CHR 0x09, CHR 0x0A, CHR 0x0B, CHR 0x0C, CHR 0x0D, CHR 0x20, CHR 0xA0}"

definition trim :: "string \<Rightarrow> string" where
  "trim s = rev (dropWhile is_space (rev (dropWhile is_space s)))"

subsection \<open>Numbers\<close>

text \<open>
  A Number is NaN, an infinity, or a finite double, kept as the rational it denotes.
  Negative zero is not told apart from zero: the script only compares, tests and prints
  numbers, and all three treat the two alike.
\<close>

datatype jsnum = NaN | PosInfinity | NegInfinity | Fin rat

definition is_digit :: "char \<Rightarrow> bool" where
  "is_digit c \<longleftrightarrow> c \<in> set ''0123456789''"

definition digit_of :: "char \<Rightarrow> nat" where
  "digit_of c =
     (if is_digit c then of_char c - 48
      else if c \<in> set ''abcdef'' then of_char c - 87
      else of_char c - 55)"

definition is_digit_in :: "nat \<Rightarrow> char \<Rightarrow> bool" where
  "is_digit_in base c \<longleftrightarrow>
     (is_digit c \<or> c \<in> set ''abcdef'' \<or> c \<in> set ''ABCDEF'') \<and> digit_of c < base"

definition digits_value :: "nat \<Rightarrow> string \<Rightarrow> nat" where
  "digits_value base ds = foldl (\<lambda>n c. n * base + digit_of c) 0 ds"

text \<open>
  \<open>SignedInteger\<close> of the exponent part: an optional sign and at least one digit.
\<close>

definition signed_integer :: "string \<Rightarrow> int option" where
  "signed_integer s =
     (let (neg, ds) = (case s of
                         c # r \<Rightarrow> if c = CHR ''-'' then (True, r)
                                  else if c = CHR ''+'' then (False, r) else (False, s)
                       | [] \<Rightarrow> (False, s))
      in if ds = [] \<or> \<not> list_all is_digit ds then None
         else Some (if neg then - int (digits_value 10 ds) else int (digits_value 10 ds)))"

text \<open>
  The value \<open>m * 10^k\<close> of a decimal literal, as a fraction of two naturals.
\<close>

definition decimal_fraction :: "nat \<Rightarrow> int \<Rightarrow> nat \<times> nat" where
  "decimal_fraction m k = (if 0 \<le> k then (m * 10 ^ nat k, 1) else (m, 10 ^ nat (- k)))"

text \<open>
  Rounding to the nearest double, ties to the even significand (\<open>RoundMVResult\<close>).
  For \<open>2^e \<le> num / den < 2^(e+1)\<close> the doubles around the value are the multiples of
  \<open>2^t\<close>, with \<open>t = e - 52\<close>, and \<open>t = -1074\<close> below the normal range; a result of
  \<open>2^1024\<close> or more is infinite. (An engine may drop the digits of a literal after the
  twentieth; this embedding rounds the exact value, as V8 does.)
\<close>

fun log2_floor :: "nat \<Rightarrow> nat" where
  "log2_floor n = (if n < 2 then 0 else Suc (log2_floor (n div 2)))"

declare log2_floor.simps [simp del]

definition round_half_even :: "nat \<Rightarrow> nat \<Rightarrow> nat" where
  "round_half_even n d =
     (let q = n div d; r = n mod d
      in if 2 * r < d then q
         else if d < 2 * r then q + 1
         else if even q then q else q + 1)"

definition scale2 :: "rat \<Rightarrow> int \<Rightarrow> rat" where
  "scale2 m e = (if 0 \<le> e then m * 2 ^ nat e else m / 2 ^ nat (- e))"

definition to_double :: "nat \<times> nat \<Rightarrow> jsnum" where
  "to_double v =
     (let num = fst v; den = snd v in
      if num = 0 then Fin 0
      else
        let a = int (log2_floor num) - int (log2_floor den);
            e = (if den * 2 ^ nat a \<le> num * 2 ^ nat (- a) then a else a - 1);
            t = max (e - 52) (- 1074);
            n = round_half_even (num * 2 ^ nat (- t)) (den * 2 ^ nat t)
        in if 0 \<le> t \<and> 2 ^ 1024 \<le> n * 2 ^ nat t then PosInfinity
           else Fin (scale2 (of_nat n) t))"

fun negate :: "jsnum \<Rightarrow> jsnum" where
  "negate NaN = NaN"
| "negate PosInfinity = NegInfinity"
| "negate NegInfinity = PosInfinity"
| "negate (Fin r) = Fin (- r)"

text \<open>
  \<open>StrUnsignedDecimalLiteral\<close> without \<^verbatim>\<open>Infinity\<close>: digits, an optional point with
  digits on at least one side, an optional exponent. The result is the mathematical value,
  as a fraction.
\<close>

definition unsigned_decimal :: "string \<Rightarrow> (nat \<times> nat) option" where
  "unsigned_decimal s =
     (let ip = takeWhile is_digit s;
          r1 = dropWhile is_digit s;
          has_point = (r1 \<noteq> [] \<and> hd r1 = CHR ''.'');
          fp = (if has_point then takeWhile is_digit (tl r1) else []);
          r2 = (if has_point then dropWhile is_digit (tl r1) else r1);
          mant = digits_value 10 (ip @ fp)
      in if ip = [] \<and> fp = [] then None
         else if r2 = [] then Some (decimal_fraction mant (- int (length fp)))
         else if hd r2 = CHR ''e'' \<or> hd r2 = CHR ''E'' then
           (case signed_integer (tl r2) of
              None \<Rightarrow> None
            | Some e \<Rightarrow> Some (decimal_fraction mant (e - int (length fp))))
         else None)"

text \<open>
  \<open>NonDecimalIntegerLiteral\<close>: \<^verbatim>\<open>0x\<close>, \<^verbatim>\<open>0o\<close> or \<^verbatim>\<open>0b\<close> (either case)
  and at least one digit of the base; no sign.
\<close>

definition non_decimal :: "string \<Rightarrow> nat option" where
  "non_decimal s =
     (case s of
        z # k # ds \<Rightarrow>
          (let base = (if k = CHR ''x'' \<or> k = CHR ''X'' then 16
                       else if k = CHR ''o'' \<or> k = CHR ''O'' then 8
                       else if k = CHR ''b'' \<or> k = CHR ''B'' then 2 else (0::nat))
           in if z = CHR ''0'' \<and> base \<noteq> 0 \<and> ds \<noteq> [] \<and> list_all (is_digit_in base) ds
              then Some (digits_value base ds) else None)
      | _ \<Rightarrow> None)"

text \<open>
  \<open>ToNumber\<close> on a string (\<open>StringToNumber\<close>): the text between the white space is
  empty (zero), a non-decimal integer literal, or a signed decimal literal, and its value
  is rounded to a double; anything else is NaN.
\<close>

definition to_number :: "string \<Rightarrow> jsnum" where
  "to_number str =
     (let s = trim str in
      if s = [] then Fin 0
      else case non_decimal s of
        Some n \<Rightarrow> to_double (n, 1)
      | None \<Rightarrow>
          (let neg = (hd s = CHR ''-'');
               u = (if hd s = CHR ''-'' \<or> hd s = CHR ''+'' then tl s else s)
           in if u = ''Infinity'' then (if neg then NegInfinity else PosInfinity)
              else case unsigned_decimal u of
                None \<Rightarrow> NaN
              | Some v \<Rightarrow> if neg then negate (to_double v) else to_double v))"

text \<open>
  \<open>x < y\<close> on two Numbers; a comparison with NaN is false. \<open>x > y\<close> is \<open>y < x\<close>.
\<close>

fun js_less :: "jsnum \<Rightarrow> jsnum \<Rightarrow> bool" where
  "js_less NaN _ = False"
| "js_less _ NaN = False"
| "js_less (Fin a) (Fin b) = (a < b)"
| "js_less NegInfinity NegInfinity = False"
| "js_less NegInfinity _ = True"
| "js_less _ NegInfinity = False"
| "js_less PosInfinity _ = False"
| "js_less _ PosInfinity = True"

text \<open>
  The decimal digits of a natural number, as \<open>Number::toString\<close> prints an integer.
\<close>

fun dec_nat :: "nat \<Rightarrow> string" where
  "dec_nat n =
     (if n < 10 then [''0123456789'' ! n]
      else dec_nat (n div 10) @ [''0123456789'' ! (n mod 10)])"

declare dec_nat.simps [simp del]

subsection \<open>What the engine decides\<close>

text \<open>
  Some texts are fixed by the JavaScript engine and not by the script: the digits of a
  Number that is not an integer up to \<open>2^53\<close>, and the messages of the TypeErrors the
  engine raises itself: reading a property of \<^verbatim>\<open>null\<close>, reading one of
  \<^verbatim>\<open>undefined\<close>, calling \<^verbatim>\<open>questions.map\<close> when it is not a function, and converting
  to a string an object that has no usable \<^verbatim>\<open>toString\<close>. They are parameters of the
  embedding.
\<close>

record engine =
  number_text :: "rat \<Rightarrow> string"
  null_read_text :: "string \<Rightarrow> string"
  undefined_read_text :: "string \<Rightarrow> string"
  not_function_text :: string
  not_primitive_text :: string

text \<open>
  A thrown value. The script only reads its \<^verbatim>\<open>message\<close>.
\<close>

datatype exn = Error string | TypeError string | SyntaxError string

fun message_of :: "exn \<Rightarrow> string" where
  "message_of (Error m) = m"
| "message_of (TypeError m) = m"
| "message_of (SyntaxError m) = m"

subsection \<open>Values\<close>

text \<open>
  The values the script handles: what \<^verbatim>\<open>response.json()\<close> can produce, and
  \<^verbatim>\<open>undefined\<close>, which reading a missing property gives. An object is the list of its own
  properties, with distinct keys.
\<close>

datatype jsval =
    Undefined
  | Null
  | Bool bool
  | Number jsnum
  | String string
  | Array "jsval list"
  | Object "(string \<times> jsval) list"

text \<open>
  \<open>ToBoolean\<close>, as \<^verbatim>\<open>!x\<close> and \<^verbatim>\<open>x || y\<close> use it.
\<close>

fun truthy :: "jsval \<Rightarrow> bool" where
  "truthy Undefined = False"
| "truthy Null = False"
| "truthy (Bool b) = b"
| "truthy (Number n) = (n \<noteq> NaN \<and> n \<noteq> Fin 0)"
| "truthy (String s) = (s \<noteq> [])"
| "truthy (Array xs) = True"
| "truthy (Object kv) = True"

text \<open>
  \<^verbatim>\<open>x.name\<close>, for the names the script reads (\<^verbatim>\<open>error\<close>, \<^verbatim>\<open>questions\<close>,
  \<^verbatim>\<open>text\<close>, \<^verbatim>\<open>length\<close>), none of which a prototype supplies except the length of an
  array or of a string. Reading from \<^verbatim>\<open>null\<close> or \<^verbatim>\<open>undefined\<close> throws.
\<close>

fun get_prop :: "engine \<Rightarrow> jsval \<Rightarrow> string \<Rightarrow> exn + jsval" where
  "get_prop eng Undefined name = Inl (TypeError (undefined_read_text eng name))"
| "get_prop eng Null name = Inl (TypeError (null_read_text eng name))"
| "get_prop eng (Object kv) name = Inr (case map_of kv name of Some v \<Rightarrow> v | None \<Rightarrow> Undefined)"
| "get_prop eng (Array xs) name =
     Inr (if name = ''length'' then Number (Fin (of_nat (length xs))) else Undefined)"
| "get_prop eng (String s) name =
     Inr (if name = ''length'' then Number (Fin (of_nat (length s))) else Undefined)"
| "get_prop eng (Bool b) name = Inr Undefined"
| "get_prop eng (Number n) name = Inr Undefined"

text \<open>
  \<open>Number::toString\<close>: the decimal digits for an integer up to \<open>2^53\<close>, the engine's text
  otherwise.
\<close>

definition number_to_string :: "engine \<Rightarrow> jsnum \<Rightarrow> string" where
  "number_to_string eng n =
     (case n of
        NaN \<Rightarrow> ''NaN''
      | PosInfinity \<Rightarrow> ''Infinity''
      | NegInfinity \<Rightarrow> ''-Infinity''
      | Fin r \<Rightarrow>
          if r = of_int \<lfloor>r\<rfloor> \<and> \<bar>r\<bar> \<le> 9007199254740992
          then (if r < 0 then ''-'' else []) @ dec_nat (nat \<bar>\<lfloor>r\<rfloor>\<bar>)
          else number_text eng r)"

text \<open>
  \<open>ToString\<close>, as a template literal and \<^verbatim>\<open>new Error(x)\<close> apply it. An array joins its
  elements with commas, \<^verbatim>\<open>null\<close> and \<^verbatim>\<open>undefined\<close> elements giving the empty string. A
  parsed object prints as \<^verbatim>\<open>[object Object]\<close>, unless it has an own property
  \<^verbatim>\<open>toString\<close>: that one is no function, so the conversion throws.
\<close>

fun to_string :: "engine \<Rightarrow> jsval \<Rightarrow> exn + string"
  and join_elements :: "engine \<Rightarrow> jsval list \<Rightarrow> exn + string" where
  "to_string eng Undefined = Inr ''undefined''"
| "to_string eng Null = Inr ''null''"
| "to_string eng (Bool b) = Inr (if b then ''true'' else ''false'')"
| "to_string eng (Number n) = Inr (number_to_string eng n)"
| "to_string eng (String s) = Inr s"
| "to_string eng (Array xs) = join_elements eng xs"
| "to_string eng (Object kv) =
     (if ''toString'' \<in> fst ` set kv then Inl (TypeError (not_primitive_text eng))
      else Inr ''[object Object]'')"
| "join_elements eng [] = Inr []"
| "join_elements eng (x # xs) =
     (case (if x = Undefined \<or> x = Null then Inr [] else to_string eng x) of
        Inl e \<Rightarrow> Inl e
      | Inr s \<Rightarrow>
          if xs = [] then Inr s
          else (case join_elements eng xs of Inl e \<Rightarrow> Inl e | Inr r \<Rightarrow> Inr (s @ '','' @ r)))"

subsection \<open>\<^verbatim>\<open>JSON.stringify\<close>\<close>

text \<open>
  \<open>QuoteJSONString\<close>: the quote, the backslash and the control characters are escaped.
\<close>

definition hex_digit :: "nat \<Rightarrow> char" where
  "hex_digit n = ''0123456789abcdef'' ! n"

definition quote_char :: "char \<Rightarrow> string" where
  "quote_char c =
     (if c = CHR 0x22 then [CHR 0x5C, CHR 0x22]
      else if c = CHR 0x5C then [CHR 0x5C, CHR 0x5C]
      else if c = CHR 0x08 then [CHR 0x5C, CHR ''b'']
      else if c = CHR 0x0C then [CHR 0x5C, CHR ''f'']
      else if c = CHR 0x0A then [CHR 0x5C, CHR ''n'']
      else if c = CHR 0x0D then [CHR 0x5C, CHR ''r'']
      else if c = CHR 0x09 then [CHR 0x5C, CHR ''t'']
      else if (of_char c :: nat) < 32 then
        [CHR 0x5C, CHR ''u'', CHR ''0'', CHR ''0'', hex_digit (of_char c div 16), hex_digit (of_char c mod 16)]
      else [c])"

definition quote :: "string \<Rightarrow> string" where
  "quote s = [CHR 0x22] @ concat (map quote_char s) @ [CHR 0x22]"

fun join :: "string \<Rightarrow> string list \<Rightarrow> string" where
  "join sep [] = []"
| "join sep [x] = x"
| "join sep (x # y # ys) = x @ sep @ join sep (y # ys)"

text \<open>
  \<^verbatim>\<open>JSON.stringify(v)\<close>: \<^verbatim>\<open>undefined\<close> has no text (it is skipped in an object and
  \<^verbatim>\<open>null\<close> in an array), a Number that is not finite is \<^verbatim>\<open>null\<close>, the properties of an
  object come in their order.
\<close>

fun stringify :: "engine \<Rightarrow> jsval \<Rightarrow> string option"
  and stringify_elements :: "engine \<Rightarrow> jsval list \<Rightarrow> string list"
  and stringify_properties :: "engine \<Rightarrow> (string \<times> jsval) list \<Rightarrow> string list" where
  "stringify eng Undefined = None"
| "stringify eng Null = Some ''null''"
| "stringify eng (Bool b) = Some (if b then ''true'' else ''false'')"
| "stringify eng (Number n) =
     Some (case n of Fin r \<Rightarrow> number_to_string eng n | _ \<Rightarrow> ''null'')"
| "stringify eng (String s) = Some (quote s)"
| "stringify eng (Array xs) = Some (''['' @ join '','' (stringify_elements eng xs) @ '']'')"
| "stringify eng (Object kv) = Some (''{'' @ join '','' (stringify_properties eng kv) @ ''}'')"
| "stringify_elements eng [] = []"
| "stringify_elements eng (x # xs) =
     (case stringify eng x of None \<Rightarrow> ''null'' | Some s \<Rightarrow> s) # stringify_elements eng xs"
| "stringify_properties eng [] = []"
| "stringify_properties eng ((k, v) # kv) =
     (case stringify eng v of
        None \<Rightarrow> stringify_properties eng kv
      | Some s \<Rightarrow> (quote k @ '':'' @ s) # stringify_properties eng kv)"

subsection \<open>The page and the network\<close>

text \<open>
  The state the script reads and writes: the values of the four form fields, the markup
  of the element \<^verbatim>\<open>quizContainer\<close>, the other elements of the document body in document
  order, and the requests sent so far. The form fields and \<^verbatim>\<open>quizContainer\<close> are taken
  to exist in the page; the element \<^verbatim>\<open>errorContainer\<close> may be missing, and the script
  provides for that. Every element of the document is inside its body. A run of
  \<^verbatim>\<open>generateQuiz\<close> is one step: no other event comes between the request and its answer.
\<close>

record element =
  tag :: string
  elem_id :: string
  text_content :: string
  style_color :: string
  style_margin_bottom :: string

record request =
  url :: string
  http_method :: string
  content_type :: string
  body :: "string option"

record page =
  topics_value :: string
  q_type_value :: string
  difficulty_value :: string
  num_questions_value :: string
  quiz_html :: string
  body_elements :: "element list"
  sent :: "request list"

text \<open>
  A response: its status and what \<^verbatim>\<open>response.json()\<close> gives, the parsed body or the
  message of the SyntaxError. \<^verbatim>\<open>fetch\<close> itself rejects with a TypeError when the
  request cannot be made. The server is a function from the request to the outcome.
\<close>

record response =
  status :: nat
  json :: "string + jsval"

datatype fetch_result = Rejected string | Responded response

definition ok :: "response \<Rightarrow> bool" where
  "ok r \<longleftrightarrow> 200 \<le> status r \<and> status r \<le> 299"

subsection \<open>\<^verbatim>\<open>displayError\<close>\<close>

definition is_error_container :: "element \<Rightarrow> bool" where
  "is_error_container e \<longleftrightarrow> elem_id e = ''errorContainer''"

text \<open>
  Lines 60 to 69. \<^verbatim>\<open>document.getElementById\<close> returns the first element with the id, and
  the assignments change that element where it stands; when there is none, a new
  \<^verbatim>\<open>div\<close> gets the id, the style and the text, and is put first in the body.
\<close>

fun update_first :: "('a \<Rightarrow> bool) \<Rightarrow> ('a \<Rightarrow> 'a) \<Rightarrow> 'a list \<Rightarrow> 'a list" where
  "update_first P f [] = []"
| "update_first P f (x # xs) = (if P x then f x # xs else x # update_first P f xs)"

definition new_div :: element where
  "new_div = \<lparr>tag = ''div'', elem_id = [], text_content = [], style_color = [],
     style_margin_bottom = []\<rparr>"

definition show_message :: "string \<Rightarrow> element \<Rightarrow> element" where
  "show_message message e =
     e\<lparr>elem_id := ''errorContainer'', style_color := ''red'',
       style_margin_bottom := ''1rem'', text_content := message\<rparr>"

definition displayError :: "string \<Rightarrow> page \<Rightarrow> page" where
  "displayError message p =
     (case find is_error_container (body_elements p) of
        Some _ \<Rightarrow>
          p\<lparr>body_elements :=
              update_first is_error_container (show_message message) (body_elements p)\<rparr>
      | None \<Rightarrow>
          p\<lparr>body_elements := show_message message new_div # body_elements p\<rparr>)"

text \<open>
  The error notices of a page: its elements with the id \<^verbatim>\<open>errorContainer\<close>.
\<close>

definition error_notices :: "page \<Rightarrow> element list" where
  "error_notices p = filter is_error_container (body_elements p)"

subsection \<open>\<^verbatim>\<open>displayQuiz\<close>\<close>

definition spaces :: "nat \<Rightarrow> string" where
  "spaces n = replicate n CHR 0x20"

text \<open>
  Lines 50 to 58. The template of one question: \<^verbatim>\<open>i + 1\<close> and \<^verbatim>\<open>q.text || q\<close> are
  converted to strings and put into the markup, between the line breaks and the
  indentation of the source. (The repository holds a second copy of the script, with
  comments; it differs in behaviour only by an HTML comment after the paragraph of this
  template.)
\<close>

definition question_markup :: "nat \<Rightarrow> string \<Rightarrow> string" where
  \<open>question_markup i shown =
     [CHR 0x0A] @ spaces 8 @ ''<div class="question">'' @
     [CHR 0x0A] @ spaces 12 @ ''<h3>Q'' @ dec_nat (i + 1) @ '':</h3>'' @
     [CHR 0x0A] @ spaces 12 @ ''<p>'' @ shown @ ''</p>'' @
     [CHR 0x0A] @ spaces 8 @ ''</div>'' @
     [CHR 0x0A] @ spaces 4\<close>

definition question_block :: "engine \<Rightarrow> nat \<Rightarrow> jsval \<Rightarrow> exn + string" where
  "question_block eng i q =
     (case get_prop eng q ''text'' of
        Inl e \<Rightarrow> Inl e
      | Inr t \<Rightarrow>
          (case to_string eng (if truthy t then t else q) of
             Inl e \<Rightarrow> Inl e
           | Inr shown \<Rightarrow> Inr (question_markup i shown)))"

text \<open>
  \<^verbatim>\<open>questions.map((q, i) => ...)\<close>: the blocks in order; the first conversion that throws
  ends the loop.
\<close>

fun map_blocks :: "engine \<Rightarrow> nat \<Rightarrow> jsval list \<Rightarrow> exn + string list" where
  "map_blocks eng i [] = Inr []"
| "map_blocks eng i (q # qs) =
     (case question_block eng i q of
        Inl e \<Rightarrow> Inl e
      | Inr b \<Rightarrow>
          (case map_blocks eng (Suc i) qs of
             Inl e \<Rightarrow> Inl e
           | Inr bs \<Rightarrow> Inr (b # bs)))"

text \<open>
  Only an array has a \<^verbatim>\<open>map\<close> to call. The markup is assigned after the loop, so a
  throw leaves the page as it was.
\<close>

definition displayQuiz :: "engine \<Rightarrow> jsval \<Rightarrow> page \<Rightarrow> exn + page" where
  "displayQuiz eng questions p =
     (case questions of
        Array qs \<Rightarrow>
          (case map_blocks eng 0 qs of
             Inl e \<Rightarrow> Inl e
           | Inr bs \<Rightarrow> Inr (p\<lparr>quiz_html := concat bs\<rparr>))
      | Undefined \<Rightarrow> Inl (TypeError (undefined_read_text eng ''map''))
      | Null \<Rightarrow> Inl (TypeError (null_read_text eng ''map''))
      | _ \<Rightarrow> Inl (TypeError (not_function_text eng)))"

subsection \<open>\<^verbatim>\<open>generateQuiz\<close>\<close>

text \<open>
  Line 2: the topics field, split at the commas, each segment trimmed.
\<close>

definition read_topics :: "page \<Rightarrow> string list" where
  "read_topics p = map trim (js_split (topics_value p) CHR '','')"

text \<open>
  Line 7: \<^verbatim>\<open>!topics.length || !qType || !difficulty || !numQuestions\<close>. The last three are
  strings, false when empty.
\<close>

definition fields_missing :: "page \<Rightarrow> bool" where
  "fields_missing p \<longleftrightarrow>
     length (read_topics p) = 0 \<or> q_type_value p = [] \<or> difficulty_value p = [] \<or>
     num_questions_value p = []"

text \<open>
  Line 11: \<^verbatim>\<open>numQuestions < 1 || numQuestions > 20\<close>, a string against a Number: the
  string is converted to a Number.
\<close>

definition out_of_range :: "page \<Rightarrow> bool" where
  "out_of_range p \<longleftrightarrow>
     js_less (to_number (num_questions_value p)) (Fin 1) \<or>
     js_less (Fin 20) (to_number (num_questions_value p))"

text \<open>
  Lines 20 to 31: the request.
\<close>

definition quiz_request :: "engine \<Rightarrow> page \<Rightarrow> request" where
  "quiz_request eng p =
     \<lparr>url = ''http://localhost:5000/api/generate-quiz'',
      http_method = ''POST'',
      content_type = ''application/json'',
      body = stringify eng (Object
        [(''topics'', Array (map String (read_topics p))),
         (''type'', String (q_type_value p)),
         (''difficulty'', String (difficulty_value p)),
         (''num_questions'', Number (to_number (num_questions_value p)))])\<rparr>"

text \<open>
  Lines 33 to 43, from the outcome of \<^verbatim>\<open>fetch\<close> on: the parsed body, the status, the
  questions. \<open>Inl\<close> is the error thrown.
\<close>

definition after_fetch :: "engine \<Rightarrow> fetch_result \<Rightarrow> page \<Rightarrow> exn + page" where
  "after_fetch eng result p =
     (case result of
        Rejected m \<Rightarrow> Inl (TypeError m)
      | Responded r \<Rightarrow>
          (case json r of
             Inl m \<Rightarrow> Inl (SyntaxError m)
           | Inr data \<Rightarrow>
               if \<not> ok r then
                 (case get_prop eng data ''error'' of
                    Inl e \<Rightarrow> Inl e
                  | Inr err \<Rightarrow>
                      (case to_string eng (if truthy err then err else String ''Request failed'') of
                         Inl e \<Rightarrow> Inl e
                       | Inr m \<Rightarrow> Inl (Error m)))
               else
                 (case get_prop eng data ''questions'' of
                    Inl e \<Rightarrow> Inl e
                  | Inr questions \<Rightarrow>
                      if \<not> truthy questions then Inl (Error ''No questions generated'')
                      else
                        (case get_prop eng questions ''length'' of
                           Inl e \<Rightarrow> Inl e
                         | Inr len \<Rightarrow>
                             if len = Number (Fin 0) then Inl (Error ''No questions generated'')
                             else displayQuiz eng questions p))))"

text \<open>
  Lines 17 to 31: the placeholder is written and the request is sent.
\<close>

definition start_fetch :: "engine \<Rightarrow> page \<Rightarrow> page" where
  "start_fetch eng p =
     p\<lparr>quiz_html := ''<p>Loading quiz...</p>'', sent := sent p @ [quiz_request eng p]\<rparr>"

text \<open>
  The whole function. The placeholder and the request stay when the rest throws; the
  \<^verbatim>\<open>catch\<close> shows the message of the error after the prefix.
\<close>

definition generateQuiz :: "engine \<Rightarrow> (request \<Rightarrow> fetch_result) \<Rightarrow> page \<Rightarrow> page" where
  "generateQuiz eng server p =
     (if fields_missing p then displayError ''All fields are required!'' p
      else if out_of_range p then displayError ''Please choose between 1 and 20 questions!'' p
      else
        (case after_fetch eng (server (quiz_request eng p)) (start_fetch eng p) of
           Inl error \<Rightarrow>
             displayError (''Failed to generate quiz: '' @ message_of error) (start_fetch eng p)
         | Inr shown \<Rightarrow> shown))"

subsection \<open>Concrete pages, engine and servers\<close>

text \<open>
  A page as it is loaded: the four fields filled in, nothing shown, nothing sent.
\<close>

definition form :: "string \<Rightarrow> string \<Rightarrow> string \<Rightarrow> string \<Rightarrow> page" where
  "form topics q_type difficulty num_questions =
     \<lparr>topics_value = topics, q_type_value = q_type, difficulty_value = difficulty,
      num_questions_value = num_questions, quiz_html = [], body_elements = [], sent = []\<rparr>"

text \<open>
  An engine for the concrete runs, with the messages of V8. No run below prints a Number
  that is not a small integer.
\<close>

definition sample_engine :: engine where
  "sample_engine =
     \<lparr>number_text = (\<lambda>r. []),
      null_read_text = (\<lambda>name.
        ''Cannot read properties of null (reading '' @ [CHR 0x27] @ name @ [CHR 0x27] @ '')''),
      undefined_read_text = (\<lambda>name.
        ''Cannot read properties of undefined (reading '' @ [CHR 0x27] @ name @ [CHR 0x27] @ '')''),
      not_function_text = ''questions.map is not a function'',
      not_primitive_text = ''Cannot convert object to primitive value''\<rparr>"

text \<open>
  A server that answers every request with the same status and parsed body, and one whose
  body is not JSON.
\<close>

definition answering :: "nat \<Rightarrow> jsval \<Rightarrow> request \<Rightarrow> fetch_result" where
  "answering code data req = Responded \<lparr>status = code, json = Inr data\<rparr>"

definition answering_text :: "nat \<Rightarrow> string \<Rightarrow> request \<Rightarrow> fetch_result" where
  "answering_text code syntax_error req = Responded \<lparr>status = code, json = Inl syntax_error\<rparr>"

text \<open>
  The messages a page shows: the texts of its error notices.
\<close>

definition shown_errors :: "page \<Rightarrow> string list" where
  "shown_errors p = map text_content (error_notices p)"

subsection \<open>The specification's wording\<close>

text \<open>
  The specification on a response with a failing status: the message is the body's
  \<^verbatim>\<open>error\<close> field if present, else \<^verbatim>\<open>Request failed\<close>, after the prefix.
\<close>

definition spec_http_error :: "response \<Rightarrow> string" where
  "spec_http_error r =
     ''Failed to generate quiz: '' @
     (case json r of
        Inr (Object kv) \<Rightarrow>
          (case map_of kv ''error'' of Some (String s) \<Rightarrow> s | _ \<Rightarrow> ''Request failed'')
      | _ \<Rightarrow> ''Request failed'')"

text \<open>
  The specification on a question: its \<^verbatim>\<open>text\<close> if it is an object, itself if it is a
  string.
\<close>

definition spec_question_text :: "jsval \<Rightarrow> string" where
  "spec_question_text q =
     (case q of
        String s \<Rightarrow> s
      | Object kv \<Rightarrow> (case map_of kv ''text'' of Some (String t) \<Rightarrow> t | _ \<Rightarrow> [])
      | _ \<Rightarrow> [])"

text \<open>
  The specification on the topics of a request: trimmed and not empty.
\<close>

definition spec_topic :: "string \<Rightarrow> bool" where
  "spec_topic t \<longleftrightarrow> t \<noteq> [] \<and> \<not> is_space (hd t) \<and> \<not> is_space (last t)"

text \<open>
  A question of the shape the page is written for: a string, or an object whose
  \<^verbatim>\<open>text\<close> is a string that is not empty.
\<close>

definition plain_question :: "jsval \<Rightarrow> bool" where
  "plain_question q =
     (case q of
        String s \<Rightarrow> True
      | Object kv \<Rightarrow> (case map_of kv ''text'' of Some (String t) \<Rightarrow> t \<noteq> [] | _ \<Rightarrow> False)
      | _ \<Rightarrow> False)"

text \<open>
  The specification on a successful response without questions: the parsed body has no
  \<^verbatim>\<open>questions\<close> field, or the list there is empty.
\<close>

definition spec_no_questions :: "jsval \<Rightarrow> bool" where
  "spec_no_questions data =
     (case data of
        Object kv \<Rightarrow> map_of kv ''questions'' = None \<or> map_of kv ''questions'' = Some (Array [])
      | _ \<Rightarrow> True)"

subsection \<open>What the markup displays\<close>

text \<open>
  The text content of markup: the characters outside the tags. This is what the browser
  makes of markup in which every \<^verbatim>\<open><\<close> opens a tag and which holds no character
  reference, carriage return or NUL character. The flag says whether the reading is
  inside a tag.
\<close>

fun visible_text :: "bool \<Rightarrow> string \<Rightarrow> string" where
  "visible_text in_tag [] = []"
| "visible_text in_tag (c # cs) =
     (if in_tag then visible_text (c \<noteq> CHR ''>'') cs
      else if c = CHR ''<'' then visible_text True cs
      else c # visible_text False cs)"

text \<open>
  A text that the markup shows as it is: it holds no \<^verbatim>\<open><\<close>, no \<^verbatim>\<open>&\<close>, no carriage
  return and no NUL character.
\<close>

definition plain_text :: "string \<Rightarrow> bool" where
  "plain_text t =
     list_all (\<lambda>c. c \<noteq> CHR ''<'' \<and> c \<noteq> CHR ''&'' \<and> c \<noteq> CHR 0x0D \<and> c \<noteq> CHR 0x00) t"

text \<open>
  The text content of the block of question \<open>i\<close> that shows \<open>shown\<close>: the label
  \<^verbatim>\<open>Q\<close>, the number and a colon, then the text, with the line breaks and the indentation
  of the template between them.
\<close>

definition block_text :: "nat \<Rightarrow> string \<Rightarrow> string" where
  "block_text i shown =
     [CHR 0x0A] @ spaces 8 @
     [CHR 0x0A] @ spaces 12 @ ''Q'' @ dec_nat (i + 1) @ '':'' @
     [CHR 0x0A] @ spaces 12 @ shown @
     [CHR 0x0A] @ spaces 8 @
     [CHR 0x0A] @ spaces 4"

section \<open>Auxiliary facts\<close>

lemma log2_floor_bounds:
  "0 < n \<Longrightarrow> 2 ^ log2_floor n \<le> n \<and> n < 2 ^ Suc (log2_floor n)"
proof (induction n rule: log2_floor.induct)
  case (1 n)
  show ?case
  proof (cases "n < 2")
    case True
    with "1.prems" show ?thesis by (simp add: log2_floor.simps)
  next
    case False
    then have "0 < n div 2" by simp
    with "1.IH" False
    have "2 ^ log2_floor (n div 2) \<le> n div 2 \<and> n div 2 < 2 ^ Suc (log2_floor (n div 2))"
      by simp
    with False show ?thesis
      by (subst (1 2) log2_floor.simps) auto
  qed
qed

lemma log2_floor_one [simp]: "log2_floor (Suc 0) = 0"
  by (simp add: log2_floor.simps)

lemma to_double_small:
  assumes "n < 2 ^ 53"
  shows "to_double (n, Suc 0) = Fin (of_nat n)"
proof (cases "n = 0")
  case True
  then show ?thesis by (simp add: to_double_def)
next
  case False
  define l where "l = log2_floor n"
  have bounds: "2 ^ l \<le> n" "n < 2 ^ Suc l"
    using False log2_floor_bounds [of n] by (simp_all add: l_def)
  have "(2::nat) ^ l < 2 ^ 53" using bounds(1) assms by simp
  then have l: "l < 53" by (rule power_less_imp_less_exp [rotated]) simp
  define k where "k = 52 - l"
  have t: "max (int l - 52) (- 1074) = - int k" using l by (simp add: k_def)
  have shift: "nat (- (- int k)) = k" by simp
  have over: "\<not> (0 \<le> - int k \<and> (2::nat) ^ 1024 \<le> n * 2 ^ k * 2 ^ nat (- int k))"
  proof (cases "k = 0")
    case True
    have "n < 2 ^ 1024" using assms by (rule less_trans) simp
    with True show ?thesis by simp
  next
    case False
    then show ?thesis by simp
  qed
  have exact: "scale2 (of_nat (n * 2 ^ k)) (- int k) = of_nat n"
    by (cases "k = 0") (simp_all add: scale2_def)
  have a: "int (log2_floor n) - int (log2_floor (Suc 0)) = int l"
    by (simp add: l_def)
  have e: "(if Suc 0 * 2 ^ nat (int l) \<le> n * 2 ^ nat (- int l) then int l else int l - 1) = int l"
    using bounds(1) by simp
  have r: "round_half_even (n * 2 ^ nat (- (- int k))) (Suc 0 * 2 ^ nat (- int k)) = n * 2 ^ k"
    by (simp add: round_half_even_def)
  have "to_double (n, Suc 0) =
      (if 0 \<le> - int k \<and> (2::nat) ^ 1024 \<le> n * 2 ^ k * 2 ^ nat (- int k) then PosInfinity
       else Fin (scale2 (of_nat (n * 2 ^ k)) (- int k)))"
    by (simp only: to_double_def Let_def fst_conv snd_conv False if_False a e t r)
  then show ?thesis by (simp only: over exact if_False)
qed

lemmas number_defs = to_number_def trim_def is_space_def non_decimal_def unsigned_decimal_def
  is_digit_def digits_value_def digit_of_def decimal_fraction_def signed_integer_def
  is_digit_in_def to_double_small

lemma to_double_steps:
  assumes "num \<noteq> 0"
    and "int (log2_floor num) - int (log2_floor den) = a"
    and "(if den * 2 ^ nat a \<le> num * 2 ^ nat (- a) then a else a - 1) = e"
    and "max (e - 52) (- 1074) = t"
    and "round_half_even (num * 2 ^ nat (- t)) (den * 2 ^ nat t) = n"
  shows "to_double (num, den) =
           (if 0 \<le> t \<and> 2 ^ 1024 \<le> n * 2 ^ nat t then PosInfinity
            else Fin (scale2 (of_nat n) t))"
  by (simp only: to_double_def Let_def fst_conv snd_conv assms if_False)

lemma to_number_rounds:
  "to_number ''20.000000000000001'' = Fin 20 \<and> to_number ''0.99999999999999999'' = Fin 1"
proof -
  have "to_double (20000000000000001, 1000000000000000) = Fin 20"
    by (subst to_double_steps [where a = 5 and e = 4 and t = "- 48" and n = 5629499534213120])
       (simp_all add: log2_floor.simps round_half_even_def scale2_def)
  moreover have "to_double (99999999999999999, 100000000000000000) = Fin 1"
    by (subst to_double_steps [where a = 0 and e = "- 1" and t = "- 53" and n = 9007199254740992])
       (simp_all add: log2_floor.simps round_half_even_def scale2_def)
  ultimately show ?thesis
    by (simp add: to_number_def trim_def is_space_def non_decimal_def unsigned_decimal_def
      is_digit_def digits_value_def digit_of_def decimal_fraction_def signed_integer_def)
qed

lemma js_split_not_Nil: "js_split s sep \<noteq> []"
  by (induction s) auto

lemma length_js_split: "length (js_split s sep) = Suc (length (filter (\<lambda>c. c = sep) s))"
  by (induction s) (auto simp: js_split_not_Nil)

lemma dec_nat_digit: "n < 10 \<Longrightarrow> dec_nat n = [''0123456789'' ! n]"
  by (simp add: dec_nat.simps)

lemma dropWhile_rev_ends:
  assumes "dropWhile P (rev t) \<noteq> []"
  shows "last (dropWhile P (rev t)) = hd t"
proof -
  have "rev t = takeWhile P (rev t) @ dropWhile P (rev t)" by simp
  then have "last (rev t) = last (dropWhile P (rev t))"
    using assms by (metis last_appendR)
  moreover have "t \<noteq> []" using assms by auto
  ultimately show ?thesis by (simp add: last_rev)
qed

lemma trim_Nil_iff: "trim s = [] \<longleftrightarrow> (\<forall>c \<in> set s. is_space c)"
proof
  assume "trim s = []"
  then have "dropWhile is_space (rev (dropWhile is_space s)) = []" by (simp add: trim_def)
  then have "\<forall>c \<in> set (dropWhile is_space s). is_space c"
    by (simp add: dropWhile_eq_Nil_conv)
  moreover have "dropWhile is_space s = [] \<or> \<not> is_space (hd (dropWhile is_space s))"
    using hd_dropWhile by blast
  ultimately have "dropWhile is_space s = []"
    by (metis list.set_sel(1))
  then show "\<forall>c \<in> set s. is_space c" by (simp add: dropWhile_eq_Nil_conv)
next
  assume "\<forall>c \<in> set s. is_space c"
  then show "trim s = []" by (auto simp: trim_def dest: set_dropWhileD)
qed

lemma trim_ends:
  assumes "trim s \<noteq> []"
  shows "\<not> is_space (hd (trim s))" and "\<not> is_space (last (trim s))"
proof -
  let ?t = "dropWhile is_space s"
  let ?u = "dropWhile is_space (rev ?t)"
  have u: "?u \<noteq> []" using assms by (simp add: trim_def)
  have t: "?t \<noteq> []"
  proof
    assume "?t = []"
    then have "?u = []" by (simp only: rev.simps dropWhile.simps)
    with u show False by blast
  qed
  have "hd (trim s) = last ?u" using u by (simp add: trim_def hd_rev)
  also have "\<dots> = hd ?t" using u by (rule dropWhile_rev_ends)
  finally show "\<not> is_space (hd (trim s))" using t hd_dropWhile by metis
  have "last (trim s) = hd ?u" using u by (simp add: trim_def last_rev)
  then show "\<not> is_space (last (trim s))" using u hd_dropWhile by metis
qed

lemma fields_missing_iff:
  "fields_missing p \<longleftrightarrow>
     q_type_value p = [] \<or> difficulty_value p = [] \<or> num_questions_value p = []"
  by (simp add: fields_missing_def read_topics_def js_split_not_Nil)

lemma displayError_fields [simp]:
  "sent (displayError m p) = sent p"
  "quiz_html (displayError m p) = quiz_html p"
  "topics_value (displayError m p) = topics_value p"
  "q_type_value (displayError m p) = q_type_value p"
  "difficulty_value (displayError m p) = difficulty_value p"
  "num_questions_value (displayError m p) = num_questions_value p"
  by (simp_all add: displayError_def split: option.splits)

lemma is_error_container_show [simp]: "is_error_container (show_message m e)"
  by (simp add: is_error_container_def show_message_def)

lemma text_content_show [simp]: "text_content (show_message m e) = m"
  by (simp add: show_message_def)

lemma filter_update_first:
  "filter P (update_first P f xs) =
     (case filter P xs of [] \<Rightarrow> [] | x # r \<Rightarrow> if P (f x) then f x # r else r)"
  by (induction xs) auto

lemma length_update_first [simp]: "length (update_first P f xs) = length xs"
  by (induction xs) auto

lemma find_None_filter: "find P xs = None \<longleftrightarrow> filter P xs = []"
  by (induction xs) auto

lemma error_notices_displayError:
  "error_notices (displayError m p) =
     (case error_notices p of
        [] \<Rightarrow> [show_message m new_div]
      | e # r \<Rightarrow> show_message m e # r)"
proof (cases "find is_error_container (body_elements p)")
  case None
  then have "filter is_error_container (body_elements p) = []"
    by (simp add: find_None_filter)
  with None show ?thesis
    by (simp add: displayError_def error_notices_def)
next
  case (Some a)
  then have "filter is_error_container (body_elements p) \<noteq> []"
    using find_None_filter [of is_error_container "body_elements p"] by simp
  with Some show ?thesis
    by (simp add: displayError_def error_notices_def filter_update_first split: list.splits)
qed

lemma after_fetch_sent: "after_fetch eng res p = Inr p' \<Longrightarrow> sent p' = sent p"
  by (auto simp: after_fetch_def displayQuiz_def
      split: fetch_result.splits sum.splits if_splits jsval.splits)

lemma sent_generateQuiz:
  "sent (generateQuiz eng server p) =
     (if fields_missing p \<or> out_of_range p then sent p else sent p @ [quiz_request eng p])"
  by (auto simp: generateQuiz_def start_fetch_def dest: after_fetch_sent split: sum.splits)

lemma show_message_twice [simp]: "show_message m' (show_message m e) = show_message m' e"
  by (simp add: show_message_def)

lemma update_first_twice:
  "(\<And>x. P x \<Longrightarrow> P (g x)) \<Longrightarrow>
     update_first P f (update_first P g xs) = update_first P (\<lambda>x. f (g x)) xs"
  by (induction xs) auto

lemma find_update_first:
  "(\<And>x. P x \<Longrightarrow> P (g x)) \<Longrightarrow> find P (update_first P g xs) = map_option g (find P xs)"
  by (induction xs) auto

lemma displayError_twice: "displayError m' (displayError m p) = displayError m' p"
proof (cases "find is_error_container (body_elements p)")
  case None
  then show ?thesis by (simp add: displayError_def)
next
  case (Some a)
  then show ?thesis
    by (simp add: displayError_def find_update_first update_first_twice)
qed

lemma fold_displayError: "fold displayError (m # ms) p = displayError (last (m # ms)) p"
proof (induction ms arbitrary: m p)
  case Nil
  then show ?case by simp
next
  case (Cons a ms)
  have "fold displayError (m # a # ms) p = fold displayError (a # ms) (displayError m p)"
    by simp
  also have "\<dots> = displayError (last (a # ms)) (displayError m p)"
    by (rule Cons.IH)
  finally show ?case by (simp add: displayError_twice)
qed

lemma shown_errors_displayError:
  "shown_errors (displayError m p) = m # tl (shown_errors p)"
  by (simp add: shown_errors_def error_notices_displayError map_tl split: list.splits)

lemma hd_shown_errors_displayError: "hd (shown_errors (displayError m p)) = m"
  by (simp add: shown_errors_displayError)

lemma block_of_plain_question:
  "plain_question q \<Longrightarrow>
     question_block eng i q = Inr (question_markup i (spec_question_text q))"
  by (auto simp: plain_question_def question_block_def spec_question_text_def
      split: jsval.splits option.splits)

lemma map_blocks_plain:
  "list_all plain_question qs \<Longrightarrow>
     map_blocks eng i qs =
       Inr (map (\<lambda>(j, q). question_markup j (spec_question_text q)) (enumerate i qs))"
  by (induction qs arbitrary: i) (simp_all add: block_of_plain_question)

lemma stringify_strings: "stringify_elements eng (map String ts) = map quote ts"
  by (induction ts) simp_all

lemma body_quiz_request:
  \<open>body (quiz_request eng p) =
     Some (''{"topics":['' @ join '','' (map quote (read_topics p)) @
           ''],"type":'' @ quote (q_type_value p) @
           '',"difficulty":'' @ quote (difficulty_value p) @
           '',"num_questions":'' @
           (case to_number (num_questions_value p) of
              Fin r \<Rightarrow> number_to_string eng (Fin r)
            | _ \<Rightarrow> ''null'') @ ''}'')\<close>
  by (simp add: quiz_request_def stringify_strings quote_def quote_char_def
      split: jsnum.splits)

lemma sample_form_passes:
  "\<not> fields_missing (form ''a,b'' ''mcq'' ''easy'' ''3'') \<and>
   \<not> out_of_range (form ''a,b'' ''mcq'' ''easy'' ''3'')"
  by (simp add: fields_missing_iff out_of_range_def form_def number_defs)

lemma shown_errors_form [simp]: "shown_errors (start_fetch eng (form t q d n)) = []"
  by (simp add: shown_errors_def error_notices_def start_fetch_def form_def)

lemma dec_nat_1: "dec_nat (Suc 0) = ''1''"
  by (simp add: dec_nat_digit)

lemma dec_nat_2: "dec_nat (Suc (Suc 0)) = ''2''"
  by (simp add: dec_nat_digit)

lemma visible_text_no_tag:
  "CHR ''<'' \<notin> set t \<Longrightarrow> visible_text False (t @ rest) = t @ visible_text False rest"
  by (induction t) auto

lemma visible_text_plain: "CHR ''<'' \<notin> set t \<Longrightarrow> visible_text False t = t"
  using visible_text_no_tag [of t "[]"] by simp

lemma digit_char: "k < 10 \<Longrightarrow> ''0123456789'' ! k \<in> set ''0123456789''"
  by (intro nth_mem) simp

lemma digit_no_tag: "k < 10 \<Longrightarrow> ''0123456789'' ! k \<noteq> CHR ''<''"
  using digit_char [of k] by auto

lemma dec_nat_no_tag: "CHR ''<'' \<notin> set (dec_nat n)"
proof (induction n rule: dec_nat.induct)
  case (1 n)
  show ?case
  proof (cases "n < 10")
    case True
    then have "dec_nat n = [''0123456789'' ! n]" by (subst dec_nat.simps) simp
    with True show ?thesis using digit_no_tag [of n] by (simp del: nth_Cons_numeral)
  next
    case False
    then have "dec_nat n = dec_nat (n div 10) @ [''0123456789'' ! (n mod 10)]"
      by (subst dec_nat.simps) simp
    with False "1.IH" show ?thesis
      using digit_no_tag [of "n mod 10"] by (simp del: nth_Cons_numeral)
  qed
qed

lemma spaces_no_tag: "CHR ''<'' \<notin> set (spaces n)"
  by (simp add: spaces_def)

lemma plain_text_no_tag: "plain_text t \<Longrightarrow> CHR ''<'' \<notin> set t"
  by (auto simp: plain_text_def list_all_iff)

lemma visible_text_template:
  assumes "CHR ''<'' \<notin> set shown"
  shows \<open>visible_text False
     ([CHR 0x0A] @ spaces 8 @ ''<div class="question">'' @
      [CHR 0x0A] @ spaces 12 @ ''<h3>Q'' @ dec_nat (i + 1) @ '':</h3>'' @
      [CHR 0x0A] @ spaces 12 @ ''<p>'' @ shown @ ''</p>'' @
      [CHR 0x0A] @ spaces 8 @ ''</div>'' @
      [CHR 0x0A] @ spaces 4 @ rest) =
     block_text i shown @ visible_text False rest\<close>
  using assms
  by (simp add: block_text_def visible_text_no_tag spaces_no_tag dec_nat_no_tag del: One_nat_def)

lemma visible_text_markup:
  "CHR ''<'' \<notin> set shown \<Longrightarrow>
     visible_text False (question_markup i shown @ rest) =
       block_text i shown @ visible_text False rest"
  using visible_text_template [of shown i rest] by (simp add: question_markup_def)

lemma visible_text_blocks:
  "list_all (\<lambda>q. plain_text (f q)) qs \<Longrightarrow>
     visible_text False (concat (map (\<lambda>(j, q). question_markup j (f q)) (enumerate i qs))) =
       concat (map (\<lambda>(j, q). block_text j (f q)) (enumerate i qs))"
  by (induction qs arbitrary: i) (simp_all add: visible_text_markup plain_text_no_tag)

section \<open>The claims\<close>

subsection \<open>Validation\<close>

text \<open>
  Claim C1. The range check of line 11 on the listed field values, the other three fields
  filled in: \<^verbatim>\<open>0\<close>, \<^verbatim>\<open>21\<close> and \<^verbatim>\<open>-1\<close> are rejected with the range message and
  nothing is sent; \<^verbatim>\<open>1\<close> and \<^verbatim>\<open>20\<close> pass and the request is sent. The value
  \<^verbatim>\<open>abc\<close> converts to NaN, both comparisons with NaN are false, and the request is
  sent with \<^verbatim>\<open>num_questions\<close> as \<^verbatim>\<open>null\<close>: it is not rejected.
\<close>

theorem listed_numQuestions_values:
  \<open>generateQuiz eng server (form ''a,b'' ''mcq'' ''easy'' ''0'') =
     displayError ''Please choose between 1 and 20 questions!'' (form ''a,b'' ''mcq'' ''easy'' ''0'') \<and>
   generateQuiz eng server (form ''a,b'' ''mcq'' ''easy'' ''21'') =
     displayError ''Please choose between 1 and 20 questions!'' (form ''a,b'' ''mcq'' ''easy'' ''21'') \<and>
   generateQuiz eng server (form ''a,b'' ''mcq'' ''easy'' ''-1'') =
     displayError ''Please choose between 1 and 20 questions!'' (form ''a,b'' ''mcq'' ''easy'' ''-1'') \<and>
   sent (generateQuiz eng server (form ''a,b'' ''mcq'' ''easy'' ''1'')) =
     [quiz_request eng (form ''a,b'' ''mcq'' ''easy'' ''1'')] \<and>
   sent (generateQuiz eng server (form ''a,b'' ''mcq'' ''easy'' ''20'')) =
     [quiz_request eng (form ''a,b'' ''mcq'' ''easy'' ''20'')] \<and>
   to_number ''abc'' = NaN \<and>
   \<not> out_of_range (form ''a,b'' ''mcq'' ''easy'' ''abc'') \<and>
   sent (generateQuiz eng server (form ''a,b'' ''mcq'' ''easy'' ''abc'')) =
     [quiz_request eng (form ''a,b'' ''mcq'' ''easy'' ''abc'')] \<and>
   body (quiz_request eng (form ''a,b'' ''mcq'' ''easy'' ''abc'')) =
     Some ''{"topics":["a","b"],"type":"mcq","difficulty":"easy","num_questions":null}''\<close>
proof -
  have missing: "\<not> fields_missing (form ''a,b'' ''mcq'' ''easy'' n)" if "n \<noteq> []" for n
    using that by (simp add: fields_missing_iff form_def)
  have n0: "out_of_range (form ''a,b'' ''mcq'' ''easy'' ''0'')"
    by (simp add: out_of_range_def form_def number_defs)
  have n21: "out_of_range (form ''a,b'' ''mcq'' ''easy'' ''21'')"
    by (simp add: out_of_range_def form_def number_defs)
  have nm1: "out_of_range (form ''a,b'' ''mcq'' ''easy'' ''-1'')"
    by (simp add: out_of_range_def form_def number_defs)
  have n1: "\<not> out_of_range (form ''a,b'' ''mcq'' ''easy'' ''1'')"
    by (simp add: out_of_range_def form_def number_defs)
  have n20: "\<not> out_of_range (form ''a,b'' ''mcq'' ''easy'' ''20'')"
    by (simp add: out_of_range_def form_def number_defs)
  have nan: "to_number ''abc'' = NaN"
    by (simp add: number_defs)
  have nabc: "\<not> out_of_range (form ''a,b'' ''mcq'' ''easy'' ''abc'')"
    by (simp add: out_of_range_def form_def nan)
  have empty: "sent (form ''a,b'' ''mcq'' ''easy'' n) = []" for n
    by (simp add: form_def)
  have serialized: \<open>body (quiz_request eng (form ''a,b'' ''mcq'' ''easy'' ''abc'')) =
     Some ''{"topics":["a","b"],"type":"mcq","difficulty":"easy","num_questions":null}''\<close>
    by (simp add: quiz_request_def form_def read_topics_def nan trim_def is_space_def
        quote_def quote_char_def)
  show ?thesis
    using n0 n21 nm1 n1 n20 nan nabc serialized
    by (simp add: sent_generateQuiz missing empty) (simp add: generateQuiz_def missing)
qed

text \<open>
  Claim C2. With the topics field empty and the other three fields filled in, the test of
  line 7 does not fire: splitting the empty string gives one (empty) topic, the validation
  passes and the request is sent with the topics \<^verbatim>\<open>[""]\<close>.
\<close>

theorem empty_topics_not_rejected:
  \<open>\<not> fields_missing (form [] ''mcq'' ''easy'' ''3'') \<and>
   read_topics (form [] ''mcq'' ''easy'' ''3'') = [[]] \<and>
   sent (generateQuiz eng server (form [] ''mcq'' ''easy'' ''3'')) =
     [quiz_request eng (form [] ''mcq'' ''easy'' ''3'')] \<and>
   body (quiz_request eng (form [] ''mcq'' ''easy'' ''3'')) =
     Some ''{"topics":[""],"type":"mcq","difficulty":"easy","num_questions":3}''\<close>
proof -
  have missing: "\<not> fields_missing (form [] ''mcq'' ''easy'' ''3'')"
    by (simp add: fields_missing_iff form_def)
  have range: "\<not> out_of_range (form [] ''mcq'' ''easy'' ''3'')"
    by (simp add: out_of_range_def form_def number_defs)
  have topics: "read_topics (form [] ''mcq'' ''easy'' ''3'') = [[]]"
    by (simp add: read_topics_def form_def trim_def)
  have serialized: \<open>body (quiz_request eng (form [] ''mcq'' ''easy'' ''3'')) =
     Some ''{"topics":[""],"type":"mcq","difficulty":"easy","num_questions":3}''\<close>
    by (simp add: quiz_request_def topics) 
       (simp add: form_def number_defs number_to_string_def quote_def quote_char_def dec_nat_digit)
  show ?thesis
    using missing range topics serialized by (simp add: sent_generateQuiz) (simp add: form_def)
qed

text \<open>
  Claim C9. Splitting any string at the commas gives at least one segment, so the list of
  topics is never empty and the first disjunct of line 7 is never true: \<^verbatim>\<open>generateQuiz\<close>
  shows \<^verbatim>\<open>All fields are required!\<close> exactly when the type, the difficulty or the
  number of questions is empty, and goes on to the range check otherwise.
\<close>

theorem topics_test_never_fires:
  "1 \<le> length (js_split s CHR '','') \<and>
   length (read_topics p) \<noteq> 0 \<and>
   generateQuiz eng server p =
     (if q_type_value p = [] \<or> difficulty_value p = [] \<or> num_questions_value p = []
      then displayError ''All fields are required!'' p
      else if out_of_range p
      then displayError ''Please choose between 1 and 20 questions!'' p
      else (case after_fetch eng (server (quiz_request eng p)) (start_fetch eng p) of
              Inl error \<Rightarrow>
                displayError (''Failed to generate quiz: '' @ message_of error) (start_fetch eng p)
            | Inr shown \<Rightarrow> shown))"
  by (simp add: length_js_split read_topics_def generateQuiz_def fields_missing_iff)

subsection \<open>The request\<close>

text \<open>
  Claim C5. For the topics \<^verbatim>\<open>a,b\<close>, the type \<^verbatim>\<open>mcq\<close>, the difficulty \<^verbatim>\<open>easy\<close> and
  \<^verbatim>\<open>3\<close> questions, the body of the request that is sent is the JSON text of the claim,
  with \<^verbatim>\<open>num_questions\<close> the number 3.
\<close>

theorem request_body_example:
  \<open>read_topics (form ''a,b'' ''mcq'' ''easy'' ''3'') = [''a'', ''b''] \<and>
   to_number ''3'' = Fin 3 \<and>
   body (quiz_request eng (form ''a,b'' ''mcq'' ''easy'' ''3'')) =
     Some ''{"topics":["a","b"],"type":"mcq","difficulty":"easy","num_questions":3}'' \<and>
   sent (generateQuiz eng server (form ''a,b'' ''mcq'' ''easy'' ''3'')) =
     [quiz_request eng (form ''a,b'' ''mcq'' ''easy'' ''3'')]\<close>
proof -
  have missing: "\<not> fields_missing (form ''a,b'' ''mcq'' ''easy'' ''3'')"
    by (simp add: fields_missing_iff form_def)
  have num: "to_number ''3'' = Fin 3"
    by (simp add: number_defs)
  have range: "\<not> out_of_range (form ''a,b'' ''mcq'' ''easy'' ''3'')"
    by (simp add: out_of_range_def form_def num)
  have topics: "read_topics (form ''a,b'' ''mcq'' ''easy'' ''3'') = [''a'', ''b'']"
    by (simp add: read_topics_def form_def trim_def is_space_def)
  have serialized: \<open>body (quiz_request eng (form ''a,b'' ''mcq'' ''easy'' ''3'')) =
     Some ''{"topics":["a","b"],"type":"mcq","difficulty":"easy","num_questions":3}''\<close>
    by (simp add: quiz_request_def topics)
       (simp add: form_def num number_to_string_def quote_def quote_char_def dec_nat_digit)
  show ?thesis
    using missing range topics serialized num by (simp add: sent_generateQuiz) (simp add: form_def)
qed

text \<open>
  Claim C8, as stated, fails: a segment that is empty or blank is trimmed to the empty
  string and stays in the request. For the topics field \<^verbatim>\<open>a,,b\<close> the request carries
  \<^verbatim>\<open>["a","","b"]\<close>.
\<close>

theorem empty_segment_counterexample:
  \<open>read_topics (form ''a,,b'' ''mcq'' ''easy'' ''3'') = [''a'', [], ''b''] \<and>
   \<not> list_all spec_topic (read_topics (form ''a,,b'' ''mcq'' ''easy'' ''3'')) \<and>
   sent (generateQuiz sample_engine (answering 200 Null) (form ''a,,b'' ''mcq'' ''easy'' ''3'')) =
     [quiz_request sample_engine (form ''a,,b'' ''mcq'' ''easy'' ''3'')] \<and>
   body (quiz_request sample_engine (form ''a,,b'' ''mcq'' ''easy'' ''3'')) =
     Some ''{"topics":["a","","b"],"type":"mcq","difficulty":"easy","num_questions":3}''\<close>
proof -
  have topics: "read_topics (form ''a,,b'' ''mcq'' ''easy'' ''3'') = [''a'', [], ''b'']"
    by (simp add: read_topics_def form_def trim_def is_space_def)
  have valid: "\<not> fields_missing (form ''a,,b'' ''mcq'' ''easy'' ''3'')"
    "\<not> out_of_range (form ''a,,b'' ''mcq'' ''easy'' ''3'')"
    by (simp_all add: fields_missing_iff out_of_range_def form_def number_defs)
  have serialized: \<open>body (quiz_request sample_engine (form ''a,,b'' ''mcq'' ''easy'' ''3'')) =
     Some ''{"topics":["a","","b"],"type":"mcq","difficulty":"easy","num_questions":3}''\<close>
    by (simp add: quiz_request_def topics)
       (simp add: form_def number_defs number_to_string_def quote_def quote_char_def dec_nat_digit)
  have posted: "sent (generateQuiz sample_engine (answering 200 Null)
      (form ''a,,b'' ''mcq'' ''easy'' ''3'')) =
     [quiz_request sample_engine (form ''a,,b'' ''mcq'' ''easy'' ''3'')]"
    using valid by (simp add: sent_generateQuiz) (simp add: form_def)
  have "\<not> list_all spec_topic (read_topics (form ''a,,b'' ''mcq'' ''easy'' ''3''))"
    by (simp add: topics spec_topic_def)
  with topics posted serialized show ?thesis by blast
qed

text \<open>
  Claim C8, amended. When the validation passes, the request that is sent carries the
  segments of the topics field between its commas, in order and each trimmed: no topic
  starts or ends with white space. The topics are all non-empty when every segment holds
  a character that is not white space.
\<close>

theorem topics_of_request:
  assumes "\<not> fields_missing p" and "\<not> out_of_range p"
  shows \<open>sent (generateQuiz eng server p) = sent p @ [quiz_request eng p] \<and>
         (\<exists>rest. body (quiz_request eng p) =
            Some (''{"topics":['' @ join '','' (map quote (read_topics p)) @ '']'' @ rest)) \<and>
         read_topics p = map trim (js_split (topics_value p) CHR '','') \<and>
         (\<forall>t \<in> set (read_topics p). t = [] \<or> \<not> is_space (hd t) \<and> \<not> is_space (last t)) \<and>
         ((\<forall>seg \<in> set (js_split (topics_value p) CHR '',''). \<exists>c \<in> set seg. \<not> is_space c) \<longrightarrow>
            list_all spec_topic (read_topics p))\<close>
proof -
  have ends: "t = [] \<or> \<not> is_space (hd t) \<and> \<not> is_space (last t)"
    if "t \<in> set (read_topics p)" for t
    using that trim_ends by (auto simp: read_topics_def)
  have filled: "list_all spec_topic (read_topics p)"
    if "\<forall>seg \<in> set (js_split (topics_value p) CHR '',''). \<exists>c \<in> set seg. \<not> is_space c"
    using that trim_ends trim_Nil_iff
    by (auto simp: read_topics_def list_all_iff spec_topic_def)
  have serialized: \<open>\<exists>rest. body (quiz_request eng p) =
      Some (''{"topics":['' @ join '','' (map quote (read_topics p)) @ '']'' @ rest)\<close>
    by (simp add: body_quiz_request)
  have posted: "sent (generateQuiz eng server p) = sent p @ [quiz_request eng p]"
    using assms by (simp add: sent_generateQuiz)
  have segments: "read_topics p = map trim (js_split (topics_value p) CHR '','')"
    by (simp add: read_topics_def)
  from posted serialized segments ends filled show ?thesis by blast
qed

text \<open>
  The amended claim on the topics field \<^verbatim>\<open>a, b\<close>: the request carries \<^verbatim>\<open>a\<close> and
  \<^verbatim>\<open>b\<close>.
\<close>

theorem topics_of_request_witness:
  "\<not> fields_missing (form ''a, b'' ''mcq'' ''easy'' ''3'') \<and>
   \<not> out_of_range (form ''a, b'' ''mcq'' ''easy'' ''3'') \<and>
   sent (generateQuiz sample_engine (answering 200 Null) (form ''a, b'' ''mcq'' ''easy'' ''3'')) =
     sent (form ''a, b'' ''mcq'' ''easy'' ''3'') @
     [quiz_request sample_engine (form ''a, b'' ''mcq'' ''easy'' ''3'')] \<and>
   read_topics (form ''a, b'' ''mcq'' ''easy'' ''3'') = [''a'', ''b''] \<and>
   list_all spec_topic (read_topics (form ''a, b'' ''mcq'' ''easy'' ''3''))"
proof -
  let ?p = "form ''a, b'' ''mcq'' ''easy'' ''3''"
  have valid: "\<not> fields_missing ?p" "\<not> out_of_range ?p"
    by (simp_all add: fields_missing_iff out_of_range_def form_def number_defs)
  have segments: "\<forall>seg \<in> set (js_split (topics_value ?p) CHR '',''). \<exists>c \<in> set seg. \<not> is_space c"
    by (simp add: form_def is_space_def)
  have topics: "map trim (js_split (topics_value ?p) CHR '','') = [''a'', ''b'']"
    by (simp add: form_def trim_def is_space_def)
  from topics_of_request [OF valid, of sample_engine "answering 200 Null", unfolded topics]
    valid segments
  show ?thesis by blast
qed

subsection \<open>The response\<close>

text \<open>
  Claim C3, as stated, fails on two responses with status 500. When the body is not JSON,
  \<^verbatim>\<open>response.json()\<close> throws before the status is looked at, and the message shown is
  that of the SyntaxError, not \<^verbatim>\<open>Request failed\<close>. When the \<^verbatim>\<open>error\<close> field is
  present and empty, \<^verbatim>\<open>data.error || "Request failed"\<close> takes the default.
\<close>

theorem http_error_counterexample:
  "shown_errors (generateQuiz sample_engine
      (answering_text 500 ''Unexpected token < in JSON at position 0'')
      (form ''a,b'' ''mcq'' ''easy'' ''3'')) =
     [''Failed to generate quiz: Unexpected token < in JSON at position 0''] \<and>
   spec_http_error \<lparr>status = 500, json = Inl ''Unexpected token < in JSON at position 0''\<rparr> =
     ''Failed to generate quiz: Request failed'' \<and>
   shown_errors (generateQuiz sample_engine
      (answering 500 (Object [(''error'', String [])]))
      (form ''a,b'' ''mcq'' ''easy'' ''3'')) =
     [''Failed to generate quiz: Request failed''] \<and>
   spec_http_error \<lparr>status = 500, json = Inr (Object [(''error'', String [])])\<rparr> =
     ''Failed to generate quiz: ''"
proof -
  have "after_fetch sample_engine
      (answering_text 500 ''Unexpected token < in JSON at position 0''
         (quiz_request sample_engine (form ''a,b'' ''mcq'' ''easy'' ''3'')))
      (start_fetch sample_engine (form ''a,b'' ''mcq'' ''easy'' ''3'')) =
    Inl (SyntaxError ''Unexpected token < in JSON at position 0'')"
    by (simp add: after_fetch_def answering_text_def)
  then have first: "shown_errors (generateQuiz sample_engine
      (answering_text 500 ''Unexpected token < in JSON at position 0'')
      (form ''a,b'' ''mcq'' ''easy'' ''3'')) =
     [''Failed to generate quiz: Unexpected token < in JSON at position 0'']"
    by (simp add: generateQuiz_def sample_form_passes shown_errors_displayError)
  have "after_fetch sample_engine
      (answering 500 (Object [(''error'', String [])])
         (quiz_request sample_engine (form ''a,b'' ''mcq'' ''easy'' ''3'')))
      (start_fetch sample_engine (form ''a,b'' ''mcq'' ''easy'' ''3'')) =
    Inl (Error ''Request failed'')"
    by (simp add: after_fetch_def answering_def ok_def)
  then have second: "shown_errors (generateQuiz sample_engine
      (answering 500 (Object [(''error'', String [])]))
      (form ''a,b'' ''mcq'' ''easy'' ''3'')) =
     [''Failed to generate quiz: Request failed'']"
    by (simp add: generateQuiz_def sample_form_passes shown_errors_displayError)
  show ?thesis
    using first second by (simp add: spec_http_error_def)
qed

text \<open>
  Claim C3, amended. For a response whose status is outside 200 to 299 and whose body
  parses to an object with the \<^verbatim>\<open>error\<close> field absent or a string, the run ends in
  \<^verbatim>\<open>displayError\<close> on the page with the placeholder and the request, and the message
  shown is the prefix followed by the \<^verbatim>\<open>error\<close> field when that is a string that is
  not empty, and by \<^verbatim>\<open>Request failed\<close> otherwise.
\<close>

theorem http_error_message:
  assumes "\<not> fields_missing p" and "\<not> out_of_range p"
    and "server (quiz_request eng p) = Responded r" and "\<not> ok r"
    and "json r = Inr (Object kv)"
    and "map_of kv ''error'' = None \<or> map_of kv ''error'' = Some (String s)"
  shows "generateQuiz eng server p =
           displayError
             (''Failed to generate quiz: '' @
                (if map_of kv ''error'' = Some (String s) \<and> s \<noteq> [] then s
                 else ''Request failed''))
             (start_fetch eng p) \<and>
         hd (shown_errors (generateQuiz eng server p)) =
           ''Failed to generate quiz: '' @
             (if map_of kv ''error'' = Some (String s) \<and> s \<noteq> [] then s
              else ''Request failed'')"
proof -
  have "after_fetch eng (server (quiz_request eng p)) (start_fetch eng p) =
          Inl (Error (if map_of kv ''error'' = Some (String s) \<and> s \<noteq> [] then s
                      else ''Request failed''))"
    using assms(3-6) by (auto simp: after_fetch_def)
  then have "generateQuiz eng server p =
           displayError
             (''Failed to generate quiz: '' @
                (if map_of kv ''error'' = Some (String s) \<and> s \<noteq> [] then s
                 else ''Request failed''))
             (start_fetch eng p)"
    using assms(1,2) by (simp add: generateQuiz_def)
  then show ?thesis by (simp only: hd_shown_errors_displayError simp_thms)
qed

text \<open>
  The amended claim on status 500 with the body \<^verbatim>\<open>{"error":"backend down"}\<close>: the
  message shown is \<^verbatim>\<open>Failed to generate quiz: backend down\<close>.
\<close>

theorem http_error_message_witness:
  "\<not> fields_missing (form ''a,b'' ''mcq'' ''easy'' ''3'') \<and>
   \<not> out_of_range (form ''a,b'' ''mcq'' ''easy'' ''3'') \<and>
   \<not> ok \<lparr>status = 500, json = Inr (Object [(''error'', String ''backend down'')])\<rparr> \<and>
   generateQuiz sample_engine (answering 500 (Object [(''error'', String ''backend down'')]))
       (form ''a,b'' ''mcq'' ''easy'' ''3'') =
     displayError ''Failed to generate quiz: backend down''
       (start_fetch sample_engine (form ''a,b'' ''mcq'' ''easy'' ''3'')) \<and>
   hd (shown_errors
        (generateQuiz sample_engine (answering 500 (Object [(''error'', String ''backend down'')]))
          (form ''a,b'' ''mcq'' ''easy'' ''3''))) =
     ''Failed to generate quiz: backend down''"
proof -
  note valid = sample_form_passes [THEN conjunct1] sample_form_passes [THEN conjunct2]
  let ?r = "\<lparr>status = 500, json = Inr (Object [(''error'', String ''backend down'')])\<rparr>"
  let ?server = "answering 500 (Object [(''error'', String ''backend down'')])"
  have h3: "?server (quiz_request sample_engine (form ''a,b'' ''mcq'' ''easy'' ''3'')) =
      Responded ?r"
    by (simp add: answering_def)
  have h4: "\<not> ok ?r" by (simp add: ok_def)
  have h5: "json ?r = Inr (Object [(''error'', String ''backend down'')])" by simp
  have h6: "map_of [(''error'', String ''backend down'')] ''error'' = None \<or>
            map_of [(''error'', String ''backend down'')] ''error'' = Some (String ''backend down'')"
    by simp
  have shown: "''Failed to generate quiz: '' @
      (if map_of [(''error'', String ''backend down'')] ''error'' = Some (String ''backend down'') \<and>
          ''backend down'' \<noteq> []
       then ''backend down'' else ''Request failed'') =
      ''Failed to generate quiz: backend down''"
    by simp
  from http_error_message [where server = ?server and eng = sample_engine,
      OF valid h3 h4 h5 h6, unfolded shown] sample_form_passes h4
  show ?thesis by blast
qed

text \<open>
  Claim C4, as stated, fails for the parsed body \<^verbatim>\<open>null\<close>: it has no
  \<^verbatim>\<open>questions\<close> field, reading \<^verbatim>\<open>data.questions\<close> throws, and the message shown is
  that of the TypeError.
\<close>

theorem null_body_counterexample:
  "spec_no_questions Null \<and>
   ok \<lparr>status = 200, json = Inr Null\<rparr> \<and>
   shown_errors (generateQuiz sample_engine (answering 200 Null)
      (form ''a,b'' ''mcq'' ''easy'' ''3'')) =
     [''Failed to generate quiz: Cannot read properties of null (reading '' @ [CHR 0x27] @
        ''questions'' @ [CHR 0x27] @ '')''] \<and>
   shown_errors (generateQuiz sample_engine (answering 200 Null)
      (form ''a,b'' ''mcq'' ''easy'' ''3'')) \<noteq>
     [''Failed to generate quiz: No questions generated'']"
proof -
  have "after_fetch sample_engine
      (answering 200 Null (quiz_request sample_engine (form ''a,b'' ''mcq'' ''easy'' ''3'')))
      (start_fetch sample_engine (form ''a,b'' ''mcq'' ''easy'' ''3'')) =
    Inl (TypeError (null_read_text sample_engine ''questions''))"
    by (simp add: after_fetch_def answering_def ok_def)
  then have "shown_errors (generateQuiz sample_engine (answering 200 Null)
      (form ''a,b'' ''mcq'' ''easy'' ''3'')) =
     [''Failed to generate quiz: '' @ null_read_text sample_engine ''questions'']"
    by (simp add: generateQuiz_def sample_form_passes shown_errors_displayError)
  then show ?thesis
    by (simp add: spec_no_questions_def ok_def sample_engine_def)
qed

text \<open>
  Claim C4, amended. For a response with a status from 200 to 299 and a parsed body other
  than \<^verbatim>\<open>null\<close>, on which \<^verbatim>\<open>questions\<close> reads as absent or as the empty list, the
  run ends in \<^verbatim>\<open>displayError\<close> with
  \<^verbatim>\<open>Failed to generate quiz: No questions generated\<close>, on the page as the request left
  it: \<^verbatim>\<open>displayQuiz\<close> has not run and the quiz area still holds the placeholder.
\<close>

theorem no_questions_message:
  assumes "\<not> fields_missing p" and "\<not> out_of_range p"
    and "server (quiz_request eng p) = Responded r" and "ok r"
    and "json r = Inr data"
    and "get_prop eng data ''questions'' = Inr Undefined \<or>
         get_prop eng data ''questions'' = Inr (Array [])"
  shows "generateQuiz eng server p =
           displayError ''Failed to generate quiz: No questions generated'' (start_fetch eng p) \<and>
         hd (shown_errors (generateQuiz eng server p)) =
           ''Failed to generate quiz: No questions generated'' \<and>
         quiz_html (generateQuiz eng server p) = ''<p>Loading quiz...</p>''"
proof -
  have "after_fetch eng (server (quiz_request eng p)) (start_fetch eng p) =
          Inl (Error ''No questions generated'')"
    using assms(3-6) by (auto simp: after_fetch_def)
  then have run: "generateQuiz eng server p =
      displayError ''Failed to generate quiz: No questions generated'' (start_fetch eng p)"
    using assms(1,2) by (simp add: generateQuiz_def)
  have "quiz_html (generateQuiz eng server p) = ''<p>Loading quiz...</p>''"
    by (simp add: run start_fetch_def)
  with run show ?thesis by (simp only: hd_shown_errors_displayError simp_thms)
qed

text \<open>
  The amended claim on status 200 with the body \<^verbatim>\<open>{"questions":[]}\<close>.
\<close>

theorem no_questions_message_witness:
  "\<not> fields_missing (form ''a,b'' ''mcq'' ''easy'' ''3'') \<and>
   \<not> out_of_range (form ''a,b'' ''mcq'' ''easy'' ''3'') \<and>
   ok \<lparr>status = 200, json = Inr (Object [(''questions'', Array [])])\<rparr> \<and>
   get_prop sample_engine (Object [(''questions'', Array [])]) ''questions'' = Inr (Array []) \<and>
   generateQuiz sample_engine (answering 200 (Object [(''questions'', Array [])]))
       (form ''a,b'' ''mcq'' ''easy'' ''3'') =
     displayError ''Failed to generate quiz: No questions generated''
       (start_fetch sample_engine (form ''a,b'' ''mcq'' ''easy'' ''3'')) \<and>
   hd (shown_errors
        (generateQuiz sample_engine (answering 200 (Object [(''questions'', Array [])]))
          (form ''a,b'' ''mcq'' ''easy'' ''3''))) =
     ''Failed to generate quiz: No questions generated'' \<and>
   quiz_html (generateQuiz sample_engine (answering 200 (Object [(''questions'', Array [])]))
       (form ''a,b'' ''mcq'' ''easy'' ''3'')) = ''<p>Loading quiz...</p>''"
proof -
  note valid = sample_form_passes [THEN conjunct1] sample_form_passes [THEN conjunct2]
  let ?r = "\<lparr>status = 200, json = Inr (Object [(''questions'', Array [])])\<rparr>"
  let ?server = "answering 200 (Object [(''questions'', Array [])])"
  have h3: "?server (quiz_request sample_engine (form ''a,b'' ''mcq'' ''easy'' ''3'')) =
      Responded ?r"
    by (simp add: answering_def)
  have h4: "ok ?r" by (simp add: ok_def)
  have h5: "json ?r = Inr (Object [(''questions'', Array [])])" by simp
  have read: "get_prop sample_engine (Object [(''questions'', Array [])]) ''questions'' =
      Inr (Array [])"
    by simp
  then have h6: "get_prop sample_engine (Object [(''questions'', Array [])]) ''questions'' =
        Inr Undefined \<or>
      get_prop sample_engine (Object [(''questions'', Array [])]) ''questions'' = Inr (Array [])"
    by (rule disjI2)
  from no_questions_message [where server = ?server and eng = sample_engine,
      OF valid h3 h4 h5 h6] sample_form_passes h4 read
  show ?thesis by blast
qed

subsection \<open>The error notice\<close>

text \<open>
  Claim C6. On a page that holds at most one element with the id \<^verbatim>\<open>errorContainer\<close>
  (ids are unique in a document), after the first call of \<^verbatim>\<open>displayError\<close> there is
  exactly one; any further calls change that element where it stands, add none and remove
  none, and the one notice shows the latest message only. A sequence of calls leaves the
  page as its last call alone would.
\<close>

theorem single_error_notice:
  assumes "length (error_notices p) \<le> 1"
  shows "shown_errors (fold displayError (m # ms) p) = [last (m # ms)] \<and>
         length (error_notices (displayError m p)) = 1 \<and>
         fold displayError (m # ms) p = displayError (last (m # ms)) p \<and>
         body_elements (fold displayError ms (displayError m p)) =
           update_first is_error_container (show_message (last (m # ms)))
             (body_elements (displayError m p))"
proof -
  have tl: "tl (shown_errors p) = []"
    using assms by (cases "error_notices p") (simp_all add: shown_errors_def)
  have one: "length (error_notices (displayError m p)) = 1"
    using assms by (cases "error_notices p") (simp_all add: error_notices_displayError)
  have found: "find is_error_container (body_elements (displayError m p)) \<noteq> None"
    using one by (auto simp: find_None_filter error_notices_def)
  have "fold displayError ms (displayError m p) = displayError (last (m # ms)) (displayError m p)"
    using fold_displayError [of m ms p] by (simp add: displayError_twice)
  then have in_place: "body_elements (fold displayError ms (displayError m p)) =
      update_first is_error_container (show_message (last (m # ms)))
        (body_elements (displayError m p))"
    using found by (auto simp: displayError_def [of _ "displayError m p"] split: option.splits)
  have latest: "fold displayError (m # ms) p = displayError (last (m # ms)) p"
    by (rule fold_displayError)
  have "shown_errors (fold displayError (m # ms) p) = [last (m # ms)]"
    by (simp only: latest shown_errors_displayError tl)
  with one latest in_place show ?thesis by blast
qed

text \<open>
  The theorem on a fresh page, with two messages one after the other.
\<close>

theorem single_error_notice_witness:
  "length (error_notices (form ''a,b'' ''mcq'' ''easy'' ''3'')) \<le> 1 \<and>
   shown_errors
     (fold displayError [''All fields are required!'', ''Please choose between 1 and 20 questions!'']
        (form ''a,b'' ''mcq'' ''easy'' ''3'')) =
     [''Please choose between 1 and 20 questions!''] \<and>
   length (error_notices
     (displayError ''All fields are required!'' (form ''a,b'' ''mcq'' ''easy'' ''3''))) = 1"
proof -
  have h: "length (error_notices (form ''a,b'' ''mcq'' ''easy'' ''3'')) \<le> 1"
    by (simp add: error_notices_def form_def)
  have latest: "last [''All fields are required!'', ''Please choose between 1 and 20 questions!''] =
      ''Please choose between 1 and 20 questions!''"
    by simp
  from single_error_notice [OF h, of "''All fields are required!''"
      "[''Please choose between 1 and 20 questions!'']", unfolded latest] h
  show ?thesis by blast
qed

subsection \<open>The questions\<close>

text \<open>
  Claim C7, as stated, fails in two ways. For the question \<^verbatim>\<open>{"text": ""}\<close> the text is
  falsy, the template falls back to the question itself, and the block holds
  \<^verbatim>\<open>[object Object]\<close> and not the (empty) text. And the text goes into the markup as it
  is: for the question \<^verbatim>\<open><b>Q</b>\<close> the block displays \<^verbatim>\<open>Q\<close>, not the question.
\<close>

theorem unshown_text_counterexample:
  "displayQuiz sample_engine (Array [Object [(''text'', String [])]])
       (form ''a,b'' ''mcq'' ''easy'' ''3'') =
     Inr ((form ''a,b'' ''mcq'' ''easy'' ''3'')
            \<lparr>quiz_html := question_markup 0 ''[object Object]''\<rparr>) \<and>
   spec_question_text (Object [(''text'', String [])]) = [] \<and>
   question_markup 0 ''[object Object]'' \<noteq>
     question_markup 0 (spec_question_text (Object [(''text'', String [])])) \<and>
   plain_question (String ''<b>Q</b>'') \<and>
   displayQuiz sample_engine (Array [String ''<b>Q</b>''])
       (form ''a,b'' ''mcq'' ''easy'' ''3'') =
     Inr ((form ''a,b'' ''mcq'' ''easy'' ''3'')
            \<lparr>quiz_html := question_markup 0 ''<b>Q</b>''\<rparr>) \<and>
   visible_text False (question_markup 0 ''<b>Q</b>'') = block_text 0 ''Q'' \<and>
   block_text 0 ''Q'' \<noteq> block_text 0 (spec_question_text (String ''<b>Q</b>''))"
proof -
  have first: "displayQuiz sample_engine (Array [Object [(''text'', String [])]])
       (form ''a,b'' ''mcq'' ''easy'' ''3'') =
     Inr ((form ''a,b'' ''mcq'' ''easy'' ''3'')
            \<lparr>quiz_html := question_markup 0 ''[object Object]''\<rparr>)"
    by (simp add: displayQuiz_def question_block_def)
  have differ: "question_markup 0 ''[object Object]'' \<noteq>
     question_markup 0 (spec_question_text (Object [(''text'', String [])]))"
    by (simp add: spec_question_text_def question_markup_def)
  have second: "displayQuiz sample_engine (Array [String ''<b>Q</b>''])
       (form ''a,b'' ''mcq'' ''easy'' ''3'') =
     Inr ((form ''a,b'' ''mcq'' ''easy'' ''3'')
            \<lparr>quiz_html := question_markup 0 ''<b>Q</b>''\<rparr>)"
    by (simp add: displayQuiz_def question_block_def)
  have seen: "visible_text False (question_markup 0 ''<b>Q</b>'') = block_text 0 ''Q''"
    by (simp add: question_markup_def block_text_def visible_text_no_tag visible_text_plain
        spaces_no_tag dec_nat_no_tag del: One_nat_def)
  have other: "block_text 0 ''Q'' \<noteq> block_text 0 (spec_question_text (String ''<b>Q</b>''))"
    by (simp add: block_text_def spec_question_text_def)
  from first differ second seen other show ?thesis
    by (simp add: spec_question_text_def plain_question_def)
qed

text \<open>
  Claim C7, amended. For every list of questions that are strings or objects whose
  \<^verbatim>\<open>text\<close> is a string that is not empty, \<^verbatim>\<open>displayQuiz\<close> replaces the markup of
  the quiz area by one block per question, in order, numbered from 1, whose paragraph
  holds the text of an object and a string itself, not escaped. When none of these texts
  holds \<^verbatim>\<open><\<close>, \<^verbatim>\<open>&\<close>, a carriage return or a NUL character, the quiz area displays,
  block by block, the label with the number and that text.
\<close>

theorem displayQuiz_blocks:
  assumes "list_all plain_question qs"
  shows "displayQuiz eng (Array qs) p =
           Inr (p\<lparr>quiz_html :=
                  concat (map (\<lambda>(i, q). question_markup i (spec_question_text q))
                            (enumerate 0 qs))\<rparr>) \<and>
         (list_all (\<lambda>q. plain_text (spec_question_text q)) qs \<longrightarrow>
            visible_text False
              (concat (map (\<lambda>(i, q). question_markup i (spec_question_text q))
                         (enumerate 0 qs))) =
            concat (map (\<lambda>(i, q). block_text i (spec_question_text q)) (enumerate 0 qs)))"
  using assms by (simp add: displayQuiz_def map_blocks_plain visible_text_blocks)

text \<open>
  The amended claim on the list \<^verbatim>\<open>["Q1 text", {"text":"Q2 text"}]\<close>: two blocks,
  labelled \<^verbatim>\<open>Q1\<close> and \<^verbatim>\<open>Q2\<close>, displaying \<^verbatim>\<open>Q1 text\<close> and \<^verbatim>\<open>Q2 text\<close>.
\<close>

theorem displayQuiz_blocks_witness:
  \<open>list_all plain_question [String ''Q1 text'', Object [(''text'', String ''Q2 text'')]] \<and>
   list_all (\<lambda>q. plain_text (spec_question_text q))
     [String ''Q1 text'', Object [(''text'', String ''Q2 text'')]] \<and>
   displayQuiz sample_engine (Array [String ''Q1 text'', Object [(''text'', String ''Q2 text'')]])
       (form ''a,b'' ''mcq'' ''easy'' ''3'') =
     Inr ((form ''a,b'' ''mcq'' ''easy'' ''3'')
            \<lparr>quiz_html := question_markup 0 ''Q1 text'' @ question_markup 1 ''Q2 text''\<rparr>) \<and>
   question_markup 0 ''Q1 text'' =
     [CHR 0x0A] @ spaces 8 @ ''<div class="question">'' @
     [CHR 0x0A] @ spaces 12 @ ''<h3>Q1:</h3>'' @
     [CHR 0x0A] @ spaces 12 @ ''<p>Q1 text</p>'' @
     [CHR 0x0A] @ spaces 8 @ ''</div>'' @
     [CHR 0x0A] @ spaces 4 \<and>
   question_markup 1 ''Q2 text'' =
     [CHR 0x0A] @ spaces 8 @ ''<div class="question">'' @
     [CHR 0x0A] @ spaces 12 @ ''<h3>Q2:</h3>'' @
     [CHR 0x0A] @ spaces 12 @ ''<p>Q2 text</p>'' @
     [CHR 0x0A] @ spaces 8 @ ''</div>'' @
     [CHR 0x0A] @ spaces 4 \<and>
   visible_text False (question_markup 0 ''Q1 text'' @ question_markup 1 ''Q2 text'') =
     [CHR 0x0A] @ spaces 8 @ [CHR 0x0A] @ spaces 12 @ ''Q1:'' @
     [CHR 0x0A] @ spaces 12 @ ''Q1 text'' @ [CHR 0x0A] @ spaces 8 @ [CHR 0x0A] @ spaces 4 @
     [CHR 0x0A] @ spaces 8 @ [CHR 0x0A] @ spaces 12 @ ''Q2:'' @
     [CHR 0x0A] @ spaces 12 @ ''Q2 text'' @ [CHR 0x0A] @ spaces 8 @ [CHR 0x0A] @ spaces 4\<close>
proof -
  let ?qs = "[String ''Q1 text'', Object [(''text'', String ''Q2 text'')]]"
  have h: "list_all plain_question ?qs"
    by (simp add: plain_question_def)
  have plain: "list_all (\<lambda>q. plain_text (spec_question_text q)) ?qs"
    by (simp add: plain_text_def spec_question_text_def)
  have blocks: "concat (map (\<lambda>(i, q). question_markup i (spec_question_text q)) (enumerate 0 ?qs)) =
      question_markup 0 ''Q1 text'' @ question_markup 1 ''Q2 text''"
    by (simp add: spec_question_text_def)
  have texts: "concat (map (\<lambda>(i, q). block_text i (spec_question_text q)) (enumerate 0 ?qs)) =
     [CHR 0x0A] @ spaces 8 @ [CHR 0x0A] @ spaces 12 @ ''Q1:'' @
     [CHR 0x0A] @ spaces 12 @ ''Q1 text'' @ [CHR 0x0A] @ spaces 8 @ [CHR 0x0A] @ spaces 4 @
     [CHR 0x0A] @ spaces 8 @ [CHR 0x0A] @ spaces 12 @ ''Q2:'' @
     [CHR 0x0A] @ spaces 12 @ ''Q2 text'' @ [CHR 0x0A] @ spaces 8 @ [CHR 0x0A] @ spaces 4"
    by (simp add: spec_question_text_def block_text_def dec_nat_1 dec_nat_2)
  have first: \<open>question_markup 0 ''Q1 text'' =
     [CHR 0x0A] @ spaces 8 @ ''<div class="question">'' @
     [CHR 0x0A] @ spaces 12 @ ''<h3>Q1:</h3>'' @
     [CHR 0x0A] @ spaces 12 @ ''<p>Q1 text</p>'' @
     [CHR 0x0A] @ spaces 8 @ ''</div>'' @
     [CHR 0x0A] @ spaces 4\<close>
    by (simp add: question_markup_def dec_nat_1)
  have second: \<open>question_markup 1 ''Q2 text'' =
     [CHR 0x0A] @ spaces 8 @ ''<div class="question">'' @
     [CHR 0x0A] @ spaces 12 @ ''<h3>Q2:</h3>'' @
     [CHR 0x0A] @ spaces 12 @ ''<p>Q2 text</p>'' @
     [CHR 0x0A] @ spaces 8 @ ''</div>'' @
     [CHR 0x0A] @ spaces 4\<close>
    by (simp add: question_markup_def dec_nat_2)
  from displayQuiz_blocks [OF h, of sample_engine "form ''a,b'' ''mcq'' ''easy'' ''3''",
      unfolded blocks texts] h plain first second
  show ?thesis by blast
qed

text \<open>
  Claim C10, as stated, fails on three questions whose \<^verbatim>\<open>text\<close> is absent. For
  \<^verbatim>\<open>null\<close>, reading \<^verbatim>\<open>q.text\<close> throws and \<^verbatim>\<open>displayQuiz\<close> renders nothing. For an
  object with an own property \<^verbatim>\<open>toString\<close>, converting the question to a string throws.
  For the string \<^verbatim>\<open><b>Q</b>\<close> the block holds the question as markup and displays
  \<^verbatim>\<open>Q\<close>.
\<close>

theorem null_question_counterexample:
  "displayQuiz sample_engine (Array [Null]) (form ''a,b'' ''mcq'' ''easy'' ''3'') =
     Inl (TypeError (''Cannot read properties of null (reading '' @ [CHR 0x27] @ ''text'' @
            [CHR 0x27] @ '')'')) \<and>
   get_prop sample_engine (Object [(''toString'', Null)]) ''text'' = Inr Undefined \<and>
   displayQuiz sample_engine (Array [Object [(''toString'', Null)]])
       (form ''a,b'' ''mcq'' ''easy'' ''3'') =
     Inl (TypeError ''Cannot convert object to primitive value'') \<and>
   get_prop sample_engine (String ''<b>Q</b>'') ''text'' = Inr Undefined \<and>
   displayQuiz sample_engine (Array [String ''<b>Q</b>''])
       (form ''a,b'' ''mcq'' ''easy'' ''3'') =
     Inr ((form ''a,b'' ''mcq'' ''easy'' ''3'')
            \<lparr>quiz_html := question_markup 0 ''<b>Q</b>''\<rparr>) \<and>
   visible_text False (question_markup 0 ''<b>Q</b>'') = block_text 0 ''Q'' \<and>
   block_text 0 ''Q'' \<noteq> block_text 0 ''<b>Q</b>''"
proof -
  have seen: "visible_text False (question_markup 0 ''<b>Q</b>'') = block_text 0 ''Q''"
    by (simp add: question_markup_def block_text_def visible_text_no_tag visible_text_plain
        spaces_no_tag dec_nat_no_tag del: One_nat_def)
  have other: "block_text 0 ''Q'' \<noteq> block_text 0 ''<b>Q</b>''"
    by (simp add: block_text_def)
  from seen other show ?thesis
    by (simp add: displayQuiz_def question_block_def sample_engine_def)
qed

text \<open>
  Claim C10, amended. For a question from which \<^verbatim>\<open>text\<close> can be read and reads as
  absent or falsy, and which converts to a string, the paragraph of the block holds that
  string, the question itself, not escaped: as a block of any number, and as the only
  question of a list. When the string holds no \<^verbatim>\<open><\<close>, \<^verbatim>\<open>&\<close>, carriage return or
  NUL character, the block displays the label and that string.
\<close>

theorem falsy_text_shows_question:
  assumes "get_prop eng q ''text'' = Inr t" and "\<not> truthy t"
    and "to_string eng q = Inr shown"
  shows \<open>question_block eng i q =
           Inr ([CHR 0x0A] @ spaces 8 @ ''<div class="question">'' @
                [CHR 0x0A] @ spaces 12 @ ''<h3>Q'' @ dec_nat (i + 1) @ '':</h3>'' @
                [CHR 0x0A] @ spaces 12 @ ''<p>'' @ shown @ ''</p>'' @
                [CHR 0x0A] @ spaces 8 @ ''</div>'' @
                [CHR 0x0A] @ spaces 4) \<and>
         displayQuiz eng (Array [q]) p =
           Inr (p\<lparr>quiz_html :=
                  [CHR 0x0A] @ spaces 8 @ ''<div class="question">'' @
                  [CHR 0x0A] @ spaces 12 @ ''<h3>Q1:</h3>'' @
                  [CHR 0x0A] @ spaces 12 @ ''<p>'' @ shown @ ''</p>'' @
                  [CHR 0x0A] @ spaces 8 @ ''</div>'' @
                  [CHR 0x0A] @ spaces 4\<rparr>) \<and>
         (plain_text shown \<longrightarrow>
            visible_text False
              ([CHR 0x0A] @ spaces 8 @ ''<div class="question">'' @
               [CHR 0x0A] @ spaces 12 @ ''<h3>Q'' @ dec_nat (i + 1) @ '':</h3>'' @
               [CHR 0x0A] @ spaces 12 @ ''<p>'' @ shown @ ''</p>'' @
               [CHR 0x0A] @ spaces 8 @ ''</div>'' @
               [CHR 0x0A] @ spaces 4) =
            [CHR 0x0A] @ spaces 8 @
            [CHR 0x0A] @ spaces 12 @ ''Q'' @ dec_nat (i + 1) @ '':'' @
            [CHR 0x0A] @ spaces 12 @ shown @
            [CHR 0x0A] @ spaces 8 @
            [CHR 0x0A] @ spaces 4)\<close>
proof -
  have block: "question_block eng i q = Inr (question_markup i shown)" for i
    using assms by (simp add: question_block_def)
  have only: "displayQuiz eng (Array [q]) p = Inr (p\<lparr>quiz_html := question_markup 0 shown\<rparr>)"
    by (simp add: displayQuiz_def block)
  have seen: "visible_text False (question_markup i shown) = block_text i shown"
    if "plain_text shown"
    using visible_text_markup [of shown i "[]"] that by (simp add: plain_text_no_tag)
  from block [of i] only seen show ?thesis
    by (simp add: question_markup_def block_text_def dec_nat_1)
qed

text \<open>
  The amended claim on the question \<^verbatim>\<open>{"text": ""}\<close>: the block holds and displays
  \<^verbatim>\<open>[object Object]\<close>.
\<close>

theorem falsy_text_shows_question_witness:
  \<open>get_prop sample_engine (Object [(''text'', String [])]) ''text'' = Inr (String []) \<and>
   \<not> truthy (String []) \<and>
   to_string sample_engine (Object [(''text'', String [])]) = Inr ''[object Object]'' \<and>
   plain_text ''[object Object]'' \<and>
   question_block sample_engine 0 (Object [(''text'', String [])]) =
     Inr ([CHR 0x0A] @ spaces 8 @ ''<div class="question">'' @
          [CHR 0x0A] @ spaces 12 @ ''<h3>Q1:</h3>'' @
          [CHR 0x0A] @ spaces 12 @ ''<p>[object Object]</p>'' @
          [CHR 0x0A] @ spaces 8 @ ''</div>'' @
          [CHR 0x0A] @ spaces 4) \<and>
   displayQuiz sample_engine (Array [Object [(''text'', String [])]])
       (form ''a,b'' ''mcq'' ''easy'' ''3'') =
     Inr ((form ''a,b'' ''mcq'' ''easy'' ''3'')
            \<lparr>quiz_html :=
               [CHR 0x0A] @ spaces 8 @ ''<div class="question">'' @
               [CHR 0x0A] @ spaces 12 @ ''<h3>Q1:</h3>'' @
               [CHR 0x0A] @ spaces 12 @ ''<p>[object Object]</p>'' @
               [CHR 0x0A] @ spaces 8 @ ''</div>'' @
               [CHR 0x0A] @ spaces 4\<rparr>) \<and>
   visible_text False
     ([CHR 0x0A] @ spaces 8 @ ''<div class="question">'' @
      [CHR 0x0A] @ spaces 12 @ ''<h3>Q1:</h3>'' @
      [CHR 0x0A] @ spaces 12 @ ''<p>[object Object]</p>'' @
      [CHR 0x0A] @ spaces 8 @ ''</div>'' @
      [CHR 0x0A] @ spaces 4) =
     [CHR 0x0A] @ spaces 8 @
     [CHR 0x0A] @ spaces 12 @ ''Q1:'' @
     [CHR 0x0A] @ spaces 12 @ ''[object Object]'' @
     [CHR 0x0A] @ spaces 8 @
     [CHR 0x0A] @ spaces 4\<close>
proof -
  have h1: "get_prop sample_engine (Object [(''text'', String [])]) ''text'' = Inr (String [])"
    by simp
  have h2: "\<not> truthy (String [])" by simp
  have h3: "to_string sample_engine (Object [(''text'', String [])]) = Inr ''[object Object]''"
    by simp
  have plain: "plain_text ''[object Object]''" by (simp add: plain_text_def)
  have label: "dec_nat (0 + 1) = ''1''" by (simp add: dec_nat_1)
  have joined: \<open>''<h3>Q'' @ ''1'' @ '':</h3>'' @ rest = ''<h3>Q1:</h3>'' @ rest\<close>
    \<open>''<p>'' @ ''[object Object]'' @ ''</p>'' @ rest = ''<p>[object Object]</p>'' @ rest\<close>
    \<open>''Q'' @ ''1'' @ '':'' @ rest = ''Q1:'' @ rest\<close> for rest :: string
    by simp_all
  from falsy_text_shows_question [OF h1 h2 h3, of 0 "form ''a,b'' ''mcq'' ''easy'' ''3''",
      unfolded label joined] h1 h2 h3 plain
  show ?thesis by blast
qed

end
